theory Spec2Isabelle
  imports Complex_Main "HOL-Library.AList"
begin

section \<open>Shared schema (shared/schema.ts)\<close>

text \<open>
  JSON values, as they travel in \<open>form_data\<close> and in the \<open>details\<close> of a log entry.
  An object is an association list (keys as the source writes them).
\<close>

datatype json =
    JNull
  | JBool bool
  | JNum int
  | JStr string
  | JArr "json list"
  | JObj "(string \<times> json) list"

text \<open>The enum \<open>TpsStatus\<close>: five string constants; the column \<open>status\<close> itself is free text.\<close>

definition DRAFT :: string where "DRAFT = ''draft''"
definition PENDING_REVIEW :: string where "PENDING_REVIEW = ''pending_review''"
definition PENDING_APPROVAL :: string where "PENDING_APPROVAL = ''pending_approval''"
definition COMPLETED :: string where "COMPLETED = ''completed''"
definition ABORTED :: string where "ABORTED = ''aborted''"

lemmas TpsStatus_defs = DRAFT_def PENDING_REVIEW_def PENDING_APPROVAL_def COMPLETED_def ABORTED_def

text \<open>Table \<open>users\<close>. The column \<open>id\<close> is \<open>id_u\<close> here, \<open>name\<close> is \<open>name_u\<close>.\<close>

record User =
  id_u :: int
  username :: string
  password :: string
  name_u :: string
  email :: string
  partner_id :: "int option"

text \<open>
  Table \<open>tps_reports\<close>. \<open>InsertTpsReport\<close> is the row without \<open>id\<close>, \<open>created_at\<close> and
  \<open>updated_at\<close>; \<open>TpsReport\<close> adds them (\<open>id\<close> is \<open>id_r\<close> here). A nullable text column is a
  \<open>string option\<close>. Instants are natural numbers.
\<close>

record InsertTpsReport =
  creator_id :: int
  receiver_id :: int
  status :: string
  date :: string
  time_start :: string
  time_end :: string
  location :: string
  location_other :: "string option"
  sound :: string
  form_data :: json
  creator_notes :: "string option"
  receiver_notes :: "string option"
  creator_initials :: "string option"
  receiver_initials :: "string option"
  replicated_from_id :: "int option"
  pdf_path :: "string option"

record TpsReport = InsertTpsReport +
  id_r :: int
  created_at :: nat
  updated_at :: nat

text \<open>
  \<open>Partial<TpsReport>\<close>, the payload of an update: every column may be absent (\<open>None\<close>).
  Keys of a request body that are no columns of the row are not represented.
\<close>

record PartialTpsReport =
  p_id :: "int option"
  p_created_at :: "nat option"
  p_updated_at :: "nat option"
  p_creator_id :: "int option"
  p_receiver_id :: "int option"
  p_status :: "string option"
  p_date :: "string option"
  p_time_start :: "string option"
  p_time_end :: "string option"
  p_location :: "string option"
  p_location_other :: "string option option"
  p_sound :: "string option"
  p_form_data :: "json option"
  p_creator_notes :: "string option option"
  p_receiver_notes :: "string option option"
  p_creator_initials :: "string option option"
  p_receiver_initials :: "string option option"
  p_replicated_from_id :: "int option option"
  p_pdf_path :: "string option option"

text \<open>Table \<open>tps_logs\<close> (\<open>id\<close> is \<open>id_l\<close> here).\<close>

record InsertTpsLog =
  tps_id :: int
  user_id :: int
  action :: string
  details :: json

record TpsLog = InsertTpsLog +
  id_l :: int
  timestamp :: nat

section \<open>The store (server/storage.ts, class MemStorage)\<close>

text \<open>
  The three maps and the three counters of \<open>MemStorage\<close>. \<open>sendEmail\<close> and
  \<open>addToCalendar\<close> only write a line to the console and return true: the lines are kept
  in \<open>outbox\<close> and \<open>calendar\<close>, in the order written. The class \<open>DatabaseStorage\<close>,
  whose \<open>replicateTpsReport\<close> is the text of the one here, follows further down.
\<close>

record Email =
  to_addr :: string
  subject :: string
  body :: string

text \<open>
  A template string with a number in it is kept as its parts, the literal text and the
  number put in: how JavaScript prints the number is not modelled.
\<close>

datatype piece = Text string | Number int

record CalendarEvent =
  summary :: string
  start :: nat
  description :: "piece list"

record Storage =
  users :: "int \<rightharpoonup> User"
  tpsReports :: "int \<rightharpoonup> TpsReport"
  tpsLogs :: "int \<rightharpoonup> TpsLog"
  userId :: int
  tpsId :: int
  logId :: int
  outbox :: "Email list"
  calendar :: "(int \<times> CalendarEvent) list"

definition getUser :: "Storage \<Rightarrow> int \<Rightarrow> User option" where
  "getUser st i = users st i"

text \<open>\<open>!user.partner_id\<close> holds for a missing partner id and for the id 0.\<close>

definition getUserWithPartner :: "Storage \<Rightarrow> int \<Rightarrow> (User \<times> User) option" where
  "getUserWithPartner st i =
     (case getUser st i of
        None \<Rightarrow> None
      | Some user \<Rightarrow>
          (case partner_id user of
             None \<Rightarrow> None
           | Some pid \<Rightarrow>
               if pid = 0 then None
               else (case getUser st pid of
                       None \<Rightarrow> None
                     | Some partner \<Rightarrow> Some (user, partner))))"

definition createTpsLog :: "Storage \<Rightarrow> InsertTpsLog \<Rightarrow> nat \<Rightarrow> TpsLog \<times> Storage" where
  "createTpsLog st entry now =
     (let i = logId st;
          tpsLog = InsertTpsLog.extend entry (TpsLog.fields i now)
      in (tpsLog, st\<lparr>logId := i + 1, tpsLogs := (tpsLogs st)(i \<mapsto> tpsLog)\<rparr>))"

definition createTpsReport :: "Storage \<Rightarrow> InsertTpsReport \<Rightarrow> nat \<Rightarrow> TpsReport \<times> Storage" where
  "createTpsReport st report now =
     (let i = tpsId st;
          tpsReport = InsertTpsReport.extend report (TpsReport.fields i now now);
          st1 = st\<lparr>tpsId := i + 1, tpsReports := (tpsReports st)(i \<mapsto> tpsReport)\<rparr>;
          st2 = snd (createTpsLog st1
                  \<lparr>tps_id = i, user_id = creator_id report, action = ''created'',
                   details = JObj []\<rparr> now)
      in (tpsReport, st2))"

definition getTpsReport :: "Storage \<Rightarrow> int \<Rightarrow> TpsReport option" where
  "getTpsReport st i = tpsReports st i"

text \<open>One key of the spread \<open>{...report, ...data}\<close>: the payload's value when it has the key.\<close>

definition spread :: "'a \<Rightarrow> 'a option \<Rightarrow> 'a" where
  "spread old new = (case new of None \<Rightarrow> old | Some v \<Rightarrow> v)"

text \<open>\<open>{...report, ...data, updated_at: new Date()}\<close>\<close>

definition mergeTpsReport :: "TpsReport \<Rightarrow> PartialTpsReport \<Rightarrow> nat \<Rightarrow> TpsReport" where
  "mergeTpsReport report data now =
     \<lparr>creator_id = spread (creator_id report) (p_creator_id data),
      receiver_id = spread (receiver_id report) (p_receiver_id data),
      status = spread (status report) (p_status data),
      date = spread (date report) (p_date data),
      time_start = spread (time_start report) (p_time_start data),
      time_end = spread (time_end report) (p_time_end data),
      location = spread (location report) (p_location data),
      location_other = spread (location_other report) (p_location_other data),
      sound = spread (sound report) (p_sound data),
      form_data = spread (form_data report) (p_form_data data),
      creator_notes = spread (creator_notes report) (p_creator_notes data),
      receiver_notes = spread (receiver_notes report) (p_receiver_notes data),
      creator_initials = spread (creator_initials report) (p_creator_initials data),
      receiver_initials = spread (receiver_initials report) (p_receiver_initials data),
      replicated_from_id = spread (replicated_from_id report) (p_replicated_from_id data),
      pdf_path = spread (pdf_path report) (p_pdf_path data),
      id_r = spread (id_r report) (p_id data),
      created_at = spread (created_at report) (p_created_at data),
      updated_at = now\<rparr>"

definition updateTpsReport ::
    "Storage \<Rightarrow> int \<Rightarrow> PartialTpsReport \<Rightarrow> nat \<Rightarrow> TpsReport option \<times> Storage" where
  "updateTpsReport st i data now =
     (case tpsReports st i of
        None \<Rightarrow> (None, st)
      | Some report \<Rightarrow>
          (let updatedReport = mergeTpsReport report data now
           in (Some updatedReport, st\<lparr>tpsReports := (tpsReports st)(i \<mapsto> updatedReport)\<rparr>)))"

definition sendEmail :: "Storage \<Rightarrow> string \<Rightarrow> string \<Rightarrow> string \<Rightarrow> Storage" where
  "sendEmail st to subj text =
     st\<lparr>outbox := outbox st @ [\<lparr>to_addr = to, subject = subj, body = text\<rparr>]\<rparr>"

definition addToCalendar :: "Storage \<Rightarrow> int \<Rightarrow> CalendarEvent \<Rightarrow> Storage" where
  "addToCalendar st u event = st\<lparr>calendar := calendar st @ [(u, event)]\<rparr>"

text \<open>
  \<open>replicateTpsReport\<close> copies \<open>form_data\<close> through \<open>JSON.parse(JSON.stringify(...))\<close>,
  the identity on JSON values, reads the property \<open>emotional_state\<close> of the copy and, when
  it is truthy, replaces it. Reading a property of \<open>null\<close> throws a \<open>TypeError\<close>; a string,
  a number, a boolean and an array have no such property. A call that the database
  refuses throws too.
\<close>

datatype error = TypeError | DatabaseError

fun truthy :: "json \<Rightarrow> bool" where
  "truthy JNull = False"
| "truthy (JBool b) = b"
| "truthy (JNum n) = (n \<noteq> 0)"
| "truthy (JStr s) = (s \<noteq> [])"
| "truthy (JArr xs) = True"
| "truthy (JObj kvs) = True"

fun get_prop :: "json \<Rightarrow> string \<Rightarrow> json option" where
  "get_prop (JObj kvs) k = map_of kvs k"
| "get_prop v k = None"

fun set_prop :: "json \<Rightarrow> string \<Rightarrow> json \<Rightarrow> json" where
  "set_prop (JObj kvs) k x = JObj (AList.update k x kvs)"
| "set_prop v k x = v"

definition reset_emotional_state :: "json \<Rightarrow> error + json" where
  "reset_emotional_state formData =
     (if formData = JNull then Inl TypeError
      else (case get_prop formData ''emotional_state'' of
              None \<Rightarrow> Inr formData
            | Some e \<Rightarrow>
                if truthy e
                then Inr (set_prop formData ''emotional_state''
                            (JObj [(''matt'', JStr []), (''mina'', JStr [])]))
                else Inr formData))"

text \<open>
  \<open>today\<close> is \<open>new Date().toISOString().split('T')[0]\<close>, the date of the instant \<open>now\<close>
  in UTC; both are read from the clock and are parameters here.
\<close>

definition replicateTpsReport ::
    "Storage \<Rightarrow> int \<Rightarrow> string \<Rightarrow> nat \<Rightarrow> error + (TpsReport option \<times> Storage)" where
  "replicateTpsReport st i today now =
     (case getTpsReport st i of
        None \<Rightarrow> Inr (None, st)
      | Some original \<Rightarrow>
          (case reset_emotional_state (form_data original) of
             Inl e \<Rightarrow> Inl e
           | Inr formData \<Rightarrow>
               (let newReport =
                      \<lparr>creator_id = creator_id original,
                       receiver_id = receiver_id original,
                       status = DRAFT,
                       date = today,
                       time_start = time_start original,
                       time_end = time_end original,
                       location = location original,
                       location_other = location_other original,
                       sound = sound original,
                       form_data = formData,
                       creator_notes = Some [],
                       receiver_notes = Some [],
                       creator_initials = Some [],
                       receiver_initials = Some [],
                       replicated_from_id = Some (id_r original),
                       pdf_path = Some []\<rparr>;
                    created = createTpsReport st newReport now;
                    report = fst created;
                    st2 = snd (createTpsLog (snd created)
                            \<lparr>tps_id = id_r report, user_id = creator_id original,
                             action = ''replicated'',
                             details = JObj [(''original_id'', JNum (id_r original))]\<rparr> now)
                in Inr (Some report, st2))))"

section \<open>The interface of the store and the class DatabaseStorage\<close>

text \<open>
  The routes call the object \<open>storage\<close> that storage.ts exports, \<open>new DatabaseStorage()\<close>,
  through the interface \<open>IStorage\<close>. A method returns a value or throws (\<open>Inl\<close>), and
  leaves the store in some state either way. The methods listed are the ones the two
  routes below call; \<open>sendEmail\<close> and \<open>addToCalendar\<close> are the same lines in both classes
  and do not throw.
\<close>

type_synonym 'a outcome = "(error + 'a) \<times> Storage"

record IStorage =
  i_getTpsReport :: "Storage \<Rightarrow> int \<Rightarrow> TpsReport option outcome"
  i_updateTpsReport :: "Storage \<Rightarrow> int \<Rightarrow> PartialTpsReport \<Rightarrow> nat \<Rightarrow> TpsReport option outcome"
  i_createTpsLog :: "Storage \<Rightarrow> InsertTpsLog \<Rightarrow> nat \<Rightarrow> TpsLog outcome"
  i_getUserWithPartner :: "Storage \<Rightarrow> int \<Rightarrow> (User \<times> User) option outcome"
  i_replicateTpsReport :: "Storage \<Rightarrow> int \<Rightarrow> string \<Rightarrow> nat \<Rightarrow> TpsReport option outcome"

definition returns :: "'a \<times> Storage \<Rightarrow> 'a outcome" where
  "returns r = (Inr (fst r), snd r)"

text \<open>The class \<open>MemStorage\<close> behind the interface: only \<open>replicateTpsReport\<close> can throw.\<close>

definition mem_storage :: IStorage where
  "mem_storage =
     \<lparr>i_getTpsReport = (\<lambda>st i. returns (getTpsReport st i, st)),
      i_updateTpsReport = (\<lambda>st i data now. returns (updateTpsReport st i data now)),
      i_createTpsLog = (\<lambda>st entry now. returns (createTpsLog st entry now)),
      i_getUserWithPartner = (\<lambda>st i. returns (getUserWithPartner st i, st)),
      i_replicateTpsReport =
        (\<lambda>st i today now.
           case replicateTpsReport st i today now of
             Inl e \<Rightarrow> (Inl e, st)
           | Inr r \<Rightarrow> returns r)\<rparr>"

text \<open>
  The class \<open>DatabaseStorage\<close> keeps the three tables in PostgreSQL and hands every
  method to a function of server/db.ts. A table is the map from the column \<open>id\<close> to the
  row, the serial columns draw their numbers from the counters. PostgreSQL is outside
  this code. It refuses a call that breaks a declaration of shared/schema.ts (a primary
  key; a reference, as when an update rewrites the \<open>id\<close> of a report that rows of
  \<open>tps_logs\<close> refer to), a value it cannot store, any call while the connection is down:
  \<open>refuses\<close> tells which call it refuses on which tables, \<open>leaves\<close> the tables after the
  refusal (a refused insert may have used up a serial number). Both are parameters. A
  refused call throws.
\<close>

datatype call =
    GetTpsReport int
  | UpdateTpsReport int PartialTpsReport
  | CreateTpsReport InsertTpsReport
  | CreateTpsLog InsertTpsLog
  | GetUserWithPartner int

record Database =
  refuses :: "Storage \<Rightarrow> call \<Rightarrow> bool"
  leaves :: "Storage \<Rightarrow> call \<Rightarrow> Storage"

definition db_call :: "Database \<Rightarrow> Storage \<Rightarrow> call \<Rightarrow> 'a \<times> Storage \<Rightarrow> 'a outcome" where
  "db_call db st c r =
     (if refuses db st c then (Inl DatabaseError, leaves db st c) else returns r)"

text \<open>\<open>select ... where id = i\<close>: the first row of the result, or \<open>undefined\<close>.\<close>

definition db_getTpsReport :: "Database \<Rightarrow> Storage \<Rightarrow> int \<Rightarrow> TpsReport option outcome" where
  "db_getTpsReport db st i = db_call db st (GetTpsReport i) (tpsReports st i, st)"

text \<open>
  \<open>update tps_reports set {...data, updated_at: new Date()} where id = i returning\<close>:
  the columns that the payload names are overwritten in the row as it is now, the column
  \<open>id\<close> among them, and the row is found under the id it has then (\<open>written\<close>). No row
  with this id: nothing is written, \<open>undefined\<close> is returned.
\<close>

definition written :: "Storage \<Rightarrow> int \<Rightarrow> TpsReport \<Rightarrow> Storage" where
  "written st i row = st\<lparr>tpsReports := ((tpsReports st)(i := None))(id_r row \<mapsto> row)\<rparr>"

definition db_updateTpsReport ::
    "Database \<Rightarrow> Storage \<Rightarrow> int \<Rightarrow> PartialTpsReport \<Rightarrow> nat \<Rightarrow> TpsReport option outcome" where
  "db_updateTpsReport db st i data now =
     db_call db st (UpdateTpsReport i data)
       (case tpsReports st i of
          None \<Rightarrow> (None, st)
        | Some row \<Rightarrow>
            (let updatedReport = mergeTpsReport row data now
             in (Some updatedReport, written st i updatedReport)))"

text \<open>\<open>insert into tps_reports ... returning\<close>; both instants are the default \<open>now()\<close>.\<close>

definition db_createTpsReport ::
    "Database \<Rightarrow> Storage \<Rightarrow> InsertTpsReport \<Rightarrow> nat \<Rightarrow> TpsReport outcome" where
  "db_createTpsReport db st reportData now =
     db_call db st (CreateTpsReport reportData)
       (let i = tpsId st;
            row = InsertTpsReport.extend reportData (TpsReport.fields i now now)
        in (row, st\<lparr>tpsId := i + 1, tpsReports := (tpsReports st)(i \<mapsto> row)\<rparr>))"

text \<open>\<open>insert into tps_logs {...log, timestamp: new Date()} returning\<close>\<close>

definition db_createTpsLog :: "Database \<Rightarrow> Storage \<Rightarrow> InsertTpsLog \<Rightarrow> nat \<Rightarrow> TpsLog outcome" where
  "db_createTpsLog db st entry now = db_call db st (CreateTpsLog entry) (createTpsLog st entry now)"

text \<open>The two selects of \<open>getUserWithPartner\<close> in db.ts, with the tests of the one above.\<close>

definition db_getUserWithPartner ::
    "Database \<Rightarrow> Storage \<Rightarrow> int \<Rightarrow> (User \<times> User) option outcome" where
  "db_getUserWithPartner db st i =
     db_call db st (GetUserWithPartner i) (getUserWithPartner st i, st)"

text \<open>\<open>DatabaseStorage.createTpsReport\<close>: the row, then its log entry.\<close>

definition ds_createTpsReport ::
    "Database \<Rightarrow> Storage \<Rightarrow> InsertTpsReport \<Rightarrow> nat \<Rightarrow> TpsReport outcome" where
  "ds_createTpsReport db st report now =
     (case db_createTpsReport db st report now of
        (Inl e, st1) \<Rightarrow> (Inl e, st1)
      | (Inr newReport, st1) \<Rightarrow>
          (case db_createTpsLog db st1
                  \<lparr>tps_id = id_r newReport, user_id = creator_id report, action = ''created'',
                   details = JObj []\<rparr> now of
             (Inl e, st2) \<Rightarrow> (Inl e, st2)
           | (Inr entry, st2) \<Rightarrow> (Inr newReport, st2)))"

text \<open>\<open>DatabaseStorage.replicateTpsReport\<close>\<close>

definition ds_replicateTpsReport ::
    "Database \<Rightarrow> Storage \<Rightarrow> int \<Rightarrow> string \<Rightarrow> nat \<Rightarrow> TpsReport option outcome" where
  "ds_replicateTpsReport db st i today now =
     (case db_getTpsReport db st i of
        (Inl e, st0) \<Rightarrow> (Inl e, st0)
      | (Inr None, st0) \<Rightarrow> (Inr None, st0)
      | (Inr (Some original), st0) \<Rightarrow>
          (case reset_emotional_state (form_data original) of
             Inl e \<Rightarrow> (Inl e, st0)
           | Inr formData \<Rightarrow>
               (case ds_createTpsReport db st0
                       \<lparr>creator_id = creator_id original,
                        receiver_id = receiver_id original,
                        status = DRAFT,
                        date = today,
                        time_start = time_start original,
                        time_end = time_end original,
                        location = location original,
                        location_other = location_other original,
                        sound = sound original,
                        form_data = formData,
                        creator_notes = Some [],
                        receiver_notes = Some [],
                        creator_initials = Some [],
                        receiver_initials = Some [],
                        replicated_from_id = Some (id_r original),
                        pdf_path = Some []\<rparr> now of
                  (Inl e, st1) \<Rightarrow> (Inl e, st1)
                | (Inr report, st1) \<Rightarrow>
                    (case db_createTpsLog db st1
                            \<lparr>tps_id = id_r report, user_id = creator_id original,
                             action = ''replicated'',
                             details = JObj [(''original_id'', JNum (id_r original))]\<rparr> now of
                       (Inl e, st2) \<Rightarrow> (Inl e, st2)
                     | (Inr entry, st2) \<Rightarrow> (Inr (Some report), st2)))))"

definition database_storage :: "Database \<Rightarrow> IStorage" where
  "database_storage db =
     \<lparr>i_getTpsReport = db_getTpsReport db,
      i_updateTpsReport = db_updateTpsReport db,
      i_createTpsLog = db_createTpsLog db,
      i_getUserWithPartner = db_getUserWithPartner db,
      i_replicateTpsReport = ds_replicateTpsReport db\<rparr>"

section \<open>The routes (server/routes.ts)\<close>

text \<open>A response is the HTTP status and the JSON sent: a message or a report.\<close>

datatype payload = Message string | ReportBody TpsReport

type_synonym response = "nat \<times> payload"

text \<open>
  \<open>PUT /api/tps-reports/:id\<close>, the checks on the report that was read (the role of the
  user and the status of the report): the refusal, or \<open>None\<close> to go on.
\<close>

definition put_permission :: "TpsReport \<Rightarrow> int \<Rightarrow> response option" where
  "put_permission report uid =
     (let isCreator = (creator_id report = uid);
          isReceiver = (receiver_id report = uid)
      in if \<not> isCreator \<and> \<not> isReceiver
           then Some (403, Message ''Access denied to this report'')
         else if status report = DRAFT \<and> \<not> isCreator
           then Some (403, Message ''Only the creator can edit a draft'')
         else if status report = PENDING_REVIEW \<and> \<not> isReceiver
           then Some (403, Message ''Only the receiver can review this report'')
         else if status report = PENDING_APPROVAL \<and> \<not> isCreator
           then Some (403, Message ''Only the creator can approve this report'')
         else if status report = COMPLETED \<or> status report = ABORTED
           then Some (403, Message ''This report is already finalized'')
         else None)"

text \<open>
  The notifications after the update, chosen by the status the payload carries;
  \<open>userData\<close> is what \<open>storage.getUserWithPartner(userId)\<close> returned.
\<close>

definition notify ::
    "Storage \<Rightarrow> TpsReport \<Rightarrow> int \<Rightarrow> PartialTpsReport \<Rightarrow> nat \<Rightarrow> (User \<times> User) option
      \<Rightarrow> Storage" where
  "notify st report uid updateData now userData =
     (let isCreator = (creator_id report = uid);
          isReceiver = (receiver_id report = uid)
      in case userData of
           None \<Rightarrow> st
         | Some (user, partner) \<Rightarrow>
             if p_status updateData = Some PENDING_REVIEW \<and> isCreator then
               sendEmail st (email partner) ''TPS Report Ready for Review''
                 (name_u user @ '' has submitted a TPS report for your review. Please log in to FormPlay to check it out!'')
             else if p_status updateData = Some PENDING_APPROVAL \<and> isReceiver then
               sendEmail st (email partner) ''TPS Report Ready for Your Approval''
                 (name_u user @ '' has reviewed your TPS report. Please log in to FormPlay to check it out!'')
             else if p_status updateData = Some COMPLETED \<and> isCreator then
               (let st1 = sendEmail st (email partner) ''TPS Report Completed''
                            (name_u user @ '' has approved the TPS report. It's time to review TPS reports!'');
                    event = \<lparr>summary = ''Review TPS Reports'', start = now,
                             description = [Text ''TPS Report #'', Number (id_r report),
                                            Text '' review time!'']\<rparr>;
                    st2 = addToCalendar st1 uid event
                in addToCalendar st2 (id_u partner) event)
             else if p_status updateData = Some ABORTED then
               (let target = (if isCreator then partner else user)
                in sendEmail st (email target) ''TPS Report Aborted''
                     ''A TPS report has been aborted. Please log in to FormPlay for details.'')
             else st)"

text \<open>
  The handler from the point where \<open>await storage.getTpsReport(reportId)\<close> has returned
  \<open>fetched\<close>: the checks, the update, the log entry, the notifications. The store it
  writes to is the store at that later point. A throw of the store is caught at the end
  of the handler and answered 500.
\<close>

definition put_resume_on ::
    "IStorage \<Rightarrow> Storage \<Rightarrow> int \<Rightarrow> int \<Rightarrow> TpsReport option \<Rightarrow> PartialTpsReport \<Rightarrow> nat
      \<Rightarrow> response \<times> Storage" where
  "put_resume_on storage st uid reportId fetched updateData now =
     (case fetched of
        None \<Rightarrow> ((404, Message ''TPS report not found''), st)
      | Some report \<Rightarrow>
          (case put_permission report uid of
             Some refusal \<Rightarrow> (refusal, st)
           | None \<Rightarrow>
               (case i_updateTpsReport storage st reportId updateData now of
                  (Inl e, st1) \<Rightarrow> ((500, Message ''Server error updating TPS report''), st1)
                | (Inr None, st1) \<Rightarrow> ((500, Message ''Failed to update TPS report''), st1)
                | (Inr (Some updatedReport), st1) \<Rightarrow>
                    (case i_createTpsLog storage st1
                            \<lparr>tps_id = reportId, user_id = uid, action = ''updated'',
                             details = JObj [(''status'', JStr (status updatedReport))]\<rparr> now of
                       (Inl e, st2) \<Rightarrow> ((500, Message ''Server error updating TPS report''), st2)
                     | (Inr entry, st2) \<Rightarrow>
                         (case i_getUserWithPartner storage st2 uid of
                            (Inl e, st3) \<Rightarrow>
                              ((500, Message ''Server error updating TPS report''), st3)
                          | (Inr userData, st3) \<Rightarrow>
                              ((200, ReportBody updatedReport),
                               notify st3 report uid updateData now userData))))))"

text \<open>
  The whole request, handled without interruption. \<open>sess\<close> is \<open>req.session.userId\<close>
  (the middleware \<open>authenticate\<close> answers 401 when it is missing or 0), \<open>reportId\<close> is
  \<open>parseInt(req.params.id)\<close> with \<open>None\<close> for NaN.
\<close>

definition put_tps_report_on ::
    "IStorage \<Rightarrow> Storage \<Rightarrow> int option \<Rightarrow> int option \<Rightarrow> PartialTpsReport \<Rightarrow> nat
      \<Rightarrow> response \<times> Storage" where
  "put_tps_report_on storage st sess reportId updateData now =
     (case sess of
        None \<Rightarrow> ((401, Message ''Unauthorized''), st)
      | Some uid \<Rightarrow>
          if uid = 0 then ((401, Message ''Unauthorized''), st)
          else (case reportId of
                  None \<Rightarrow> ((400, Message ''Invalid report ID''), st)
                | Some rid \<Rightarrow>
                    (case i_getTpsReport storage st rid of
                       (Inl e, st0) \<Rightarrow> ((500, Message ''Server error updating TPS report''), st0)
                     | (Inr fetched, st0) \<Rightarrow>
                         put_resume_on storage st0 uid rid fetched updateData now)))"

text \<open>\<open>POST /api/tps-reports/:id/replicate\<close>; a throw of the store is answered 500.\<close>

definition post_replicate_on ::
    "IStorage \<Rightarrow> Storage \<Rightarrow> int option \<Rightarrow> int option \<Rightarrow> string \<Rightarrow> nat
      \<Rightarrow> response \<times> Storage" where
  "post_replicate_on storage st sess reportId today now =
     (case sess of
        None \<Rightarrow> ((401, Message ''Unauthorized''), st)
      | Some uid \<Rightarrow>
          if uid = 0 then ((401, Message ''Unauthorized''), st)
          else (case reportId of
                  None \<Rightarrow> ((400, Message ''Invalid report ID''), st)
                | Some rid \<Rightarrow>
                    (case i_getTpsReport storage st rid of
                       (Inl e, st0) \<Rightarrow>
                         ((500, Message ''Server error replicating TPS report''), st0)
                     | (Inr None, st0) \<Rightarrow> ((404, Message ''TPS report not found''), st0)
                     | (Inr (Some report), st0) \<Rightarrow>
                         if status report \<noteq> COMPLETED \<and> status report \<noteq> ABORTED
                         then ((400, Message ''Only completed or aborted reports can be replicated''), st0)
                         else (case i_replicateTpsReport storage st0 rid today now of
                                 (Inl e, st1) \<Rightarrow>
                                   ((500, Message ''Server error replicating TPS report''), st1)
                               | (Inr None, st1) \<Rightarrow>
                                   ((500, Message ''Failed to replicate TPS report''), st1)
                               | (Inr (Some newReport), st1) \<Rightarrow>
                                   ((201, ReportBody newReport), st1)))))"

text \<open>
  The two routes on the class \<open>MemStorage\<close>, and the notifications with the users as
  that class finds them.
\<close>

definition put_notify ::
    "Storage \<Rightarrow> TpsReport \<Rightarrow> int \<Rightarrow> PartialTpsReport \<Rightarrow> nat \<Rightarrow> Storage" where
  "put_notify st report uid updateData now =
     notify st report uid updateData now (getUserWithPartner st uid)"

definition put_resume ::
    "Storage \<Rightarrow> int \<Rightarrow> int \<Rightarrow> TpsReport option \<Rightarrow> PartialTpsReport \<Rightarrow> nat
      \<Rightarrow> response \<times> Storage" where
  "put_resume = put_resume_on mem_storage"

definition put_tps_report ::
    "Storage \<Rightarrow> int option \<Rightarrow> int option \<Rightarrow> PartialTpsReport \<Rightarrow> nat \<Rightarrow> response \<times> Storage" where
  "put_tps_report = put_tps_report_on mem_storage"

definition post_replicate ::
    "Storage \<Rightarrow> int option \<Rightarrow> int option \<Rightarrow> string \<Rightarrow> nat \<Rightarrow> response \<times> Storage" where
  "post_replicate = post_replicate_on mem_storage"


section \<open>A concrete store\<close>

text \<open>The store as the constructor of \<open>MemStorage\<close> leaves it: the two users, no report.\<close>

definition matt :: User where
  "matt = \<lparr>id_u = 1, username = ''matt'', password = ''password'', name_u = ''Matt'',
           email = ''matt@example.com'', partner_id = Some 2\<rparr>"

definition mina :: User where
  "mina = \<lparr>id_u = 2, username = ''mina'', password = ''password'', name_u = ''Mina'',
           email = ''mina@example.com'', partner_id = Some 1\<rparr>"

definition MemStorage :: Storage where
  "MemStorage =
     \<lparr>users = [1 \<mapsto> matt, 2 \<mapsto> mina], tpsReports = Map.empty, tpsLogs = Map.empty,
      userId = 3, tpsId = 1, logId = 1, outbox = [], calendar = []\<rparr>"

text \<open>A report of Matt's for Mina, and the store that holds it as report 1 in a given status.\<close>

definition sample :: "string \<Rightarrow> InsertTpsReport" where
  "sample s =
     \<lparr>creator_id = 1, receiver_id = 2, status = s, date = ''2025-01-01'',
      time_start = ''19:00'', time_end = ''21:00'', location = ''home'',
      location_other = None, sound = ''music'',
      form_data = JObj [(''emotional_state'', JObj [(''matt'', JStr ''calm''), (''mina'', JStr ''curious'')]),
                        (''matt_notes'', JStr ''tea'')],
      creator_notes = Some ''bring candles'', receiver_notes = None,
      creator_initials = None, receiver_initials = None,
      replicated_from_id = None, pdf_path = None\<rparr>"

definition store_with :: "string \<Rightarrow> Storage" where
  "store_with s = snd (createTpsReport MemStorage (sample s) 10)"

definition no_change :: PartialTpsReport where
  "no_change =
     \<lparr>p_id = None, p_created_at = None, p_updated_at = None, p_creator_id = None,
      p_receiver_id = None, p_status = None, p_date = None, p_time_start = None,
      p_time_end = None, p_location = None, p_location_other = None, p_sound = None,
      p_form_data = None, p_creator_notes = None, p_receiver_notes = None,
      p_creator_initials = None, p_receiver_initials = None,
      p_replicated_from_id = None, p_pdf_path = None\<rparr>"

definition set_status :: "string \<Rightarrow> PartialTpsReport" where
  "set_status s = no_change\<lparr>p_status := Some s\<rparr>"

section \<open>Sequences of update requests\<close>

text \<open>One request to \<open>PUT /api/tps-reports/:id\<close>, and a list of them handled in order.\<close>

record PutRequest =
  q_session :: "int option"
  q_id :: "int option"
  q_body :: PartialTpsReport
  q_now :: nat

fun put_all :: "Storage \<Rightarrow> PutRequest list \<Rightarrow> response list \<times> Storage" where
  "put_all st [] = ([], st)"
| "put_all st (q # qs) =
     (let r = put_tps_report st (q_session q) (q_id q) (q_body q) (q_now q);
          rest = put_all (snd r) qs
      in (fst r # fst rest, snd rest))"

text \<open>A request is refused: the answer is 403 Forbidden and the store is as it was.\<close>

definition refused :: "Storage \<Rightarrow> response \<times> Storage \<Rightarrow> bool" where
  "refused st r = (fst (fst r) = 403 \<and> snd r = st)"

text \<open>
  The counter \<open>tpsId\<close> is ahead of every id in use: no report is stored under it or
  under a later id. It holds of the new store and every operation keeps it.
\<close>

definition ids_fresh :: "Storage \<Rightarrow> bool" where
  "ids_fresh st = (\<forall>k. tpsId st \<le> k \<longrightarrow> tpsReports st k = None)"

section \<open>The calls of the update handler to the database\<close>

text \<open>
  The calls that the update handler makes to the store once its checks have passed, each
  with the tables it meets, when the row with the id is \<open>row\<close> and no call before it is
  refused: the update, the log entry, the read of the user and the partner. A database
  accepts a list of calls when it refuses none of them; the database \<open>accepting\<close> refuses
  nothing.
\<close>

definition put_calls ::
    "Storage \<Rightarrow> int \<Rightarrow> int \<Rightarrow> TpsReport \<Rightarrow> PartialTpsReport \<Rightarrow> nat
      \<Rightarrow> (Storage \<times> call) list" where
  "put_calls st uid reportId row updateData now =
     (let updatedReport = mergeTpsReport row updateData now;
          st1 = written st reportId updatedReport;
          entry = \<lparr>tps_id = reportId, user_id = uid, action = ''updated'',
                   details = JObj [(''status'', JStr (status updatedReport))]\<rparr>;
          st2 = snd (createTpsLog st1 entry now)
      in [(st, UpdateTpsReport reportId updateData), (st1, CreateTpsLog entry),
          (st2, GetUserWithPartner uid)])"

definition accepts :: "Database \<Rightarrow> (Storage \<times> call) list \<Rightarrow> bool" where
  "accepts db calls = list_all (\<lambda>(st, c). \<not> refuses db st c) calls"

definition accepting :: Database where
  "accepting = \<lparr>refuses = (\<lambda>st c. False), leaves = (\<lambda>st c. st)\<rparr>"

text \<open>
  A database that keeps the key of a row: it refuses an update whose payload carries
  another id than the one of the row, and nothing else.
\<close>

definition keyed :: Database where
  "keyed =
     \<lparr>refuses = (\<lambda>st c. case c of
                            UpdateTpsReport i data \<Rightarrow> p_id data \<noteq> None \<and> p_id data \<noteq> Some i
                          | _ \<Rightarrow> False),
      leaves = (\<lambda>st c. st)\<rparr>"

section \<open>The transition table of the specification\<close>



section \<open>The field extractor (client/src/lib/pdf.ts)\<close>

text \<open>
  What pdf.js hands over: a document has \<open>numPages\<close> pages, and \<open>getPage i\<close> stands for
  \<open>(await pdfDoc.getPage(i)).getAnnotations()\<close>, the annotations of page \<open>i\<close> in the order
  pdf.js lists them. A property of an annotation that is missing (\<open>undefined\<close>) is \<open>None\<close>.
  \<open>rect\<close> is the array \<open>[rect[0], rect[1], rect[2], rect[3]]\<close>. A number is the real
  number that the double stands for; the extractor copies numbers and computes with none.
\<close>

record ChoiceOption =
  displayValue :: "string option"
  opt_exportValue :: "string option"

record Annotation =
  subtype :: string
  fieldName :: "string option"
  fieldType :: "string option"
  buttonValue :: "json option"
  fieldValue :: "json option"
  a_defaultValue :: "json option"
  required :: "bool option"
  a_rect :: "(real \<times> real \<times> real \<times> real) option"
  a_options :: "ChoiceOption list option"
  a_exportValue :: "string option"
  maxLen :: "nat option"

record PdfDocument =
  numPages :: nat
  getPage :: "nat \<Rightarrow> Annotation list"

record Rect =
  rect_left :: real
  rect_top :: real
  rect_right :: real
  rect_bottom :: real

text \<open>The interface \<open>FormField\<close> (\<open>name\<close>, \<open>type\<close>, \<open>value\<close> are \<open>name_f\<close>, \<open>type_f\<close>, \<open>value_f\<close>).\<close>

record FormField =
  name_f :: string
  type_f :: string
  value_f :: json
  exportValue :: "string option"
  options :: "string option list option"
  rect :: "Rect option"
  pageNumber :: "nat option"
  defaultValue :: json
  isRequired :: bool
  maxLength :: "nat option"

text \<open>\<open>a || b\<close> on strings and on values that may be missing.\<close>

definition str_or :: "string option \<Rightarrow> string option \<Rightarrow> string option" where
  "str_or a b = (case a of None \<Rightarrow> b | Some s \<Rightarrow> if s = [] then b else a)"

definition val_or :: "json option \<Rightarrow> json option \<Rightarrow> json option" where
  "val_or a b = (case a of None \<Rightarrow> b | Some v \<Rightarrow> if truthy v then a else b)"

definition str_default :: "string option \<Rightarrow> string \<Rightarrow> string" where
  "str_default a d = (case str_or a (Some d) of None \<Rightarrow> d | Some s \<Rightarrow> s)"

definition val_default :: "json option \<Rightarrow> json \<Rightarrow> json" where
  "val_default a d = (case val_or a (Some d) of None \<Rightarrow> d | Some v \<Rightarrow> v)"

text \<open>The body of the \<open>forEach\<close>: the field made of one widget annotation of page \<open>i\<close>.\<close>

definition field_of :: "nat \<Rightarrow> Annotation \<Rightarrow> FormField" where
  "field_of i annotation =
     \<lparr>name_f = str_default (fieldName annotation) ''unnamed'',
      type_f = str_default (fieldType annotation) ''unknown'',
      value_f = val_default (val_or (buttonValue annotation) (fieldValue annotation)) (JStr []),
      exportValue =
        (case a_exportValue annotation of
           None \<Rightarrow> None
         | Some e \<Rightarrow> if e = [] then None else Some e),
      options =
        (case a_options annotation of
           None \<Rightarrow> None
         | Some opts \<Rightarrow> Some (map (\<lambda>opt. str_or (displayValue opt) (opt_exportValue opt)) opts)),
      rect =
        (case a_rect annotation of
           None \<Rightarrow> None
         | Some (r0, r1, r2, r3) \<Rightarrow>
             Some \<lparr>rect_left = r0, rect_top = r1, rect_right = r2, rect_bottom = r3\<rparr>),
      pageNumber = Some i,
      defaultValue = val_default (a_defaultValue annotation) (JStr []),
      isRequired = (case required annotation of None \<Rightarrow> False | Some b \<Rightarrow> b),
      maxLength =
        (case maxLen annotation of
           None \<Rightarrow> None
         | Some n \<Rightarrow> if n = 0 then None else Some n)\<rparr>"

text \<open>\<open>annotations.filter(...).forEach(... formFields.push(field))\<close> for page \<open>i\<close>.\<close>

fun push_fields :: "nat \<Rightarrow> Annotation list \<Rightarrow> FormField list \<Rightarrow> FormField list" where
  "push_fields i [] formFields = formFields"
| "push_fields i (annotation # rest) formFields =
     push_fields i rest (formFields @ [field_of i annotation])"

text \<open>The loop \<open>for (let i = 1; i <= pdfDoc.numPages; i++)\<close>, from page \<open>i\<close> on.\<close>

function extract_from :: "PdfDocument \<Rightarrow> nat \<Rightarrow> FormField list \<Rightarrow> FormField list" where
  "extract_from pdfDoc i formFields =
     (if i \<le> numPages pdfDoc
      then extract_from pdfDoc (i + 1)
             (push_fields i (filter (\<lambda>annotation. subtype annotation = ''Widget'') (getPage pdfDoc i))
                formFields)
      else formFields)"
  by pat_completeness auto
termination
  by (relation "measure (\<lambda>(pdfDoc, i, formFields). Suc (numPages pdfDoc) - i)") auto

definition extractFormFields :: "PdfDocument \<Rightarrow> FormField list" where
  "extractFormFields pdfDoc = extract_from pdfDoc 1 []"

text \<open>
  The order the specification words: the pages in order from page 1, and within a page the
  widget annotations in the order of the page.
\<close>

definition page_fields :: "PdfDocument \<Rightarrow> nat \<Rightarrow> FormField list" where
  "page_fields pdfDoc i =
     map (field_of i) (filter (\<lambda>annotation. subtype annotation = ''Widget'') (getPage pdfDoc i))"

definition fields_in_page_order :: "PdfDocument \<Rightarrow> FormField list" where
  "fields_in_page_order pdfDoc = concat (map (page_fields pdfDoc) [1 ..< Suc (numPages pdfDoc)])"

text \<open>
  The module keeps the document, its fields and its bytes in three variables.
  \<open>loadPdfForm\<close> fetches the bytes of a URL and parses them with
  \<open>pdfjsLib.getDocument\<close>; the bytes fetched and the parser of pdf.js are parameters
  (the parser answers \<open>None\<close> where it rejects the bytes). Any failure is rethrown as
  \<open>Failed to load PDF\<close>, with the variables as the statements before it left them.
\<close>

type_synonym bytes = "nat list"

record PdfModule =
  currentPdfDocument :: "PdfDocument option"
  currentPdfFields :: "FormField list"
  currentPdfBytes :: "bytes option"

datatype load_error = FailedToLoadPDF

definition loadPdfForm ::
    "(bytes \<Rightarrow> PdfDocument option) \<Rightarrow> PdfModule \<Rightarrow> bytes \<Rightarrow> (load_error + bytes) \<times> PdfModule" where
  "loadPdfForm getDocument m pdfBytes =
     (let m1 = m\<lparr>currentPdfBytes := Some pdfBytes\<rparr>;
          m2 = m1\<lparr>currentPdfDocument := None\<rparr>
      in case getDocument pdfBytes of
           None \<Rightarrow> (Inl FailedToLoadPDF, m2)
         | Some pdfDoc \<Rightarrow>
             (Inr pdfBytes,
              m2\<lparr>currentPdfDocument := Some pdfDoc,
                  currentPdfFields := extractFormFields pdfDoc\<rparr>))"

section \<open>The overlay renderer (client/src/lib/pdf.ts)\<close>

text \<open>
  The numbers of JavaScript are binary64 doubles. A double is taken as the real number it
  stands for, and an operation yields the exact result rounded to 53 significant bits,
  a tie going to the even neighbour: \<open>fl64\<close>. The exponent is not bounded here. For a
  result that is 0 or between \<open>2^-1022\<close> and \<open>2^1024\<close> in size this is the arithmetic of
  JavaScript; subnormal numbers, Infinity and NaN are not modelled, and the statements
  about the renderer keep to numbers of moderate size.
\<close>

definition round_even :: "real \<Rightarrow> int" where
  "round_even x =
     (let n = \<lfloor>x\<rfloor>; d = x - of_int n
      in if d < 1 / 2 then n else if 1 / 2 < d then n + 1 else if even n then n else n + 1)"

definition expo :: "real \<Rightarrow> int" where
  "expo x = \<lfloor>log 2 \<bar>x\<bar>\<rfloor>"

definition fl64 :: "real \<Rightarrow> real" where
  "fl64 x =
     (if x = 0 then 0
      else (let ulp = 2 powr (of_int (expo x) - 52)
            in of_int (round_even (x / ulp)) * ulp))"

definition moderate :: "real \<Rightarrow> bool" where
  "moderate x = (x = 0 \<or> (1 / 2 ^ 900 \<le> \<bar>x\<bar> \<and> \<bar>x\<bar> \<le> 2 ^ 900))"

text \<open>
  A length assigned to \<open>style.width\<close> or \<open>style.height\<close>, as in
  \<open>fieldContainer.style.height = height + 'px'\<close>. CSS has no negative width or height:
  such an assignment is ignored, and the property of the new element stays unset
  (\<open>None\<close>). \<open>style.left\<close> and \<open>style.top\<close> take any length.
\<close>

definition px_length :: "real \<Rightarrow> real option" where
  "px_length v = (if v < 0 then None else Some v)"

text \<open>
  \<open>createInteractiveFormElements\<close>, the geometry: the four lengths (in px) of the style
  of the container of a field, from the size of the canvas (\<open>canvas.width\<close> and
  \<open>canvas.height\<close>, two integers below \<open>2^32\<close>, which are doubles) and the rectangle of
  the field. The fields of page 1 that have a rectangle get a container, in the order of
  the list.
\<close>

record Box =
  style_left :: real
  style_top :: real
  style_width :: "real option"
  style_height :: "real option"

definition field_box :: "nat \<Rightarrow> nat \<Rightarrow> Rect \<Rightarrow> Box" where
  "field_box canvas_width canvas_height r =
     (let scale = fl64 (real canvas_width / 595);
          left = fl64 (rect_left r * scale);
          top = fl64 (real canvas_height - fl64 (rect_top r * scale));
          width = fl64 (fl64 (rect_right r - rect_left r) * scale);
          height = fl64 (fl64 (rect_top r - rect_bottom r) * scale)
      in \<lparr>style_left = left, style_top = fl64 (top - height),
          style_width = px_length width, style_height = px_length height\<rparr>)"

fun overlay_boxes :: "nat \<Rightarrow> nat \<Rightarrow> FormField list \<Rightarrow> (string \<times> Box) list" where
  "overlay_boxes canvas_width canvas_height [] = []"
| "overlay_boxes canvas_width canvas_height (field # rest) =
     (if pageNumber field = Some 1
      then (case rect field of
              None \<Rightarrow> overlay_boxes canvas_width canvas_height rest
            | Some r \<Rightarrow>
                (name_f field, field_box canvas_width canvas_height r)
                  # overlay_boxes canvas_width canvas_height rest)
      else overlay_boxes canvas_width canvas_height rest)"

text \<open>A document of two pages for the extractor, and a field across an A4 page.\<close>

definition widget :: "string \<Rightarrow> string \<Rightarrow> Annotation" where
  "widget kind nm =
     \<lparr>subtype = kind, fieldName = Some nm, fieldType = Some ''text'', buttonValue = None,
      fieldValue = Some (JStr ''x''), a_defaultValue = None, required = None,
      a_rect = Some (0, 100, 595, 120), a_options = None, a_exportValue = None,
      maxLen = None\<rparr>"

definition sample_doc :: PdfDocument where
  "sample_doc =
     \<lparr>numPages = 2,
      getPage = (\<lambda>i. if i = 1 then [widget ''Widget'' ''a'', widget ''Link'' ''l'', widget ''Widget'' ''b'']
                     else if i = 2 then [widget ''Widget'' ''c'']
                     else [])\<rparr>"

definition full_width :: Rect where
  "full_width = \<lparr>rect_left = 0, rect_top = 100, rect_right = 595, rect_bottom = 120\<rparr>"

section \<open>Facts about the store and the update handler\<close>

declare extract_from.simps [simp del]

lemmas store_defs = createTpsReport_def createTpsLog_def getTpsReport_def updateTpsReport_def
  mergeTpsReport_def spread_def sendEmail_def addToCalendar_def getUser_def getUserWithPartner_def
  InsertTpsReport.defs TpsReport.defs InsertTpsLog.defs TpsLog.defs

lemmas sample_defs = MemStorage_def sample_def store_with_def no_change_def set_status_def
  matt_def mina_def

text \<open>The handlers on \<open>MemStorage\<close>, written out: no call of this class throws here.\<close>

lemma put_resume_mem:
  "put_resume st uid reportId fetched updateData now =
     (case fetched of
        None \<Rightarrow> ((404, Message ''TPS report not found''), st)
      | Some report \<Rightarrow>
          (case put_permission report uid of
             Some refusal \<Rightarrow> (refusal, st)
           | None \<Rightarrow>
               (case updateTpsReport st reportId updateData now of
                  (None, st1) \<Rightarrow> ((500, Message ''Failed to update TPS report''), st1)
                | (Some updatedReport, st1) \<Rightarrow>
                    (let st2 = snd (createTpsLog st1
                                 \<lparr>tps_id = reportId, user_id = uid, action = ''updated'',
                                  details = JObj [(''status'', JStr (status updatedReport))]\<rparr> now);
                         st3 = put_notify st2 report uid updateData now
                     in ((200, ReportBody updatedReport), st3)))))"
  by (simp add: put_resume_def put_resume_on_def mem_storage_def returns_def put_notify_def Let_def
           split: option.splits prod.splits)

lemma put_tps_report_mem:
  "put_tps_report st sess reportId updateData now =
     (case sess of
        None \<Rightarrow> ((401, Message ''Unauthorized''), st)
      | Some uid \<Rightarrow>
          if uid = 0 then ((401, Message ''Unauthorized''), st)
          else (case reportId of
                  None \<Rightarrow> ((400, Message ''Invalid report ID''), st)
                | Some rid \<Rightarrow> put_resume st uid rid (getTpsReport st rid) updateData now))"
  by (simp add: put_tps_report_def put_tps_report_on_def put_resume_def mem_storage_def
                returns_def split: option.splits)

lemma post_replicate_mem:
  "post_replicate st sess reportId today now =
     (case sess of
        None \<Rightarrow> ((401, Message ''Unauthorized''), st)
      | Some uid \<Rightarrow>
          if uid = 0 then ((401, Message ''Unauthorized''), st)
          else (case reportId of
                  None \<Rightarrow> ((400, Message ''Invalid report ID''), st)
                | Some rid \<Rightarrow>
                    (case getTpsReport st rid of
                       None \<Rightarrow> ((404, Message ''TPS report not found''), st)
                     | Some report \<Rightarrow>
                         if status report \<noteq> COMPLETED \<and> status report \<noteq> ABORTED
                         then ((400, Message ''Only completed or aborted reports can be replicated''), st)
                         else (case replicateTpsReport st rid today now of
                                 Inl e \<Rightarrow> ((500, Message ''Server error replicating TPS report''), st)
                               | Inr (None, st1) \<Rightarrow>
                                   ((500, Message ''Failed to replicate TPS report''), st1)
                               | Inr (Some newReport, st1) \<Rightarrow>
                                   ((201, ReportBody newReport), st1)))))"
  by (simp add: post_replicate_def post_replicate_on_def mem_storage_def returns_def
           split: option.splits sum.splits prod.splits)

lemmas put_defs = put_tps_report_mem put_resume_mem put_permission_def put_notify_def notify_def

lemma TpsStatus_distinct:
  "DRAFT \<noteq> PENDING_REVIEW"
  "DRAFT \<noteq> PENDING_APPROVAL"
  "DRAFT \<noteq> COMPLETED"
  "DRAFT \<noteq> ABORTED"
  "PENDING_REVIEW \<noteq> DRAFT"
  "PENDING_REVIEW \<noteq> PENDING_APPROVAL"
  "PENDING_REVIEW \<noteq> COMPLETED"
  "PENDING_REVIEW \<noteq> ABORTED"
  "PENDING_APPROVAL \<noteq> DRAFT"
  "PENDING_APPROVAL \<noteq> PENDING_REVIEW"
  "PENDING_APPROVAL \<noteq> COMPLETED"
  "PENDING_APPROVAL \<noteq> ABORTED"
  "COMPLETED \<noteq> DRAFT"
  "COMPLETED \<noteq> PENDING_REVIEW"
  "COMPLETED \<noteq> PENDING_APPROVAL"
  "COMPLETED \<noteq> ABORTED"
  "ABORTED \<noteq> DRAFT"
  "ABORTED \<noteq> PENDING_REVIEW"
  "ABORTED \<noteq> PENDING_APPROVAL"
  "ABORTED \<noteq> COMPLETED"
  by (simp_all add: TpsStatus_defs)

lemma sample_report:
  "getTpsReport (store_with s) 1 = Some (InsertTpsReport.extend (sample s) (TpsReport.fields 1 10 10))"
  by (simp add: store_defs sample_defs Let_def)

lemma sample_report_fields:
  "creator_id (InsertTpsReport.extend (sample s) (TpsReport.fields 1 10 10)) = 1"
  "receiver_id (InsertTpsReport.extend (sample s) (TpsReport.fields 1 10 10)) = 2"
  "status (InsertTpsReport.extend (sample s) (TpsReport.fields 1 10 10)) = s"
  "form_data (InsertTpsReport.extend (sample s) (TpsReport.fields 1 10 10)) \<noteq> JNull"
  by (simp_all add: sample_def InsertTpsReport.defs TpsReport.defs)

lemma getUserWithPartner_users:
  "users st' = users st \<Longrightarrow> getUserWithPartner st' u = getUserWithPartner st u"
  by (simp add: getUserWithPartner_def getUser_def split: option.splits)

lemma put_notify_reports [simp]:
  "tpsReports (put_notify st report uid updateData now) = tpsReports st"
  by (auto simp: put_notify_def notify_def Let_def sendEmail_def addToCalendar_def
        split: option.splits prod.splits)

lemma createTpsLog_reports [simp]:
  "tpsReports (snd (createTpsLog st entry now)) = tpsReports st"
  by (simp add: createTpsLog_def Let_def)


lemma put_permission_403:
  "put_permission report uid = Some refusal \<Longrightarrow> fst refusal = 403"
  by (auto simp: put_permission_def Let_def split: if_splits)

lemma put_resume_codes:
  "fst (fst (put_resume st uid rid fetched updateData now)) \<in> {200, 403, 404, 500}"
  by (auto simp: put_resume_mem Let_def dest: put_permission_403 split: option.splits prod.splits)

lemma put_resume_other:
  "k \<noteq> rid \<Longrightarrow>
   tpsReports (snd (put_resume st uid rid fetched updateData now)) k = tpsReports st k"
  by (auto simp: put_resume_mem updateTpsReport_def Let_def split: option.splits prod.splits)


lemma put_terminal_refused:
  assumes "getTpsReport st rid = Some report"
    and "status report = COMPLETED \<or> status report = ABORTED"
    and "uid \<noteq> 0"
  shows "refused st (put_tps_report st (Some uid) (Some rid) updateData now)"
  using assms
  by (auto simp: refused_def put_tps_report_mem put_resume_mem put_permission_def Let_def
        TpsStatus_defs)

lemma put_terminal_kept:
  assumes "getTpsReport st rid = Some report"
    and "status report = COMPLETED \<or> status report = ABORTED"
  shows "getTpsReport (snd (put_tps_report st sess reportId updateData now)) rid = Some report"
proof (cases "reportId = Some rid")
  case True
  with assms show ?thesis
    by (auto simp: put_tps_report_mem put_resume_mem put_permission_def Let_def TpsStatus_defs
          getTpsReport_def split: option.splits)
next
  case False
  with assms show ?thesis
    by (auto simp: put_tps_report_mem getTpsReport_def put_resume_other split: option.splits)
qed

lemma put_all_terminal:
  assumes "getTpsReport st rid = Some report"
    and "status report = COMPLETED \<or> status report = ABORTED"
  shows "getTpsReport (snd (put_all st qs)) rid = Some report
       \<and> length (fst (put_all st qs)) = length qs
       \<and> (\<forall>i < length qs. q_id (qs ! i) = Some rid \<longrightarrow>
             (\<exists>uid. q_session (qs ! i) = Some uid \<and> uid \<noteq> 0) \<longrightarrow>
             fst (fst (put_all st qs) ! i) = 403)"
  using assms
proof (induction qs arbitrary: st)
  case Nil
  then show ?case by simp
next
  case (Cons q qs)
  let ?r = "put_tps_report st (q_session q) (q_id q) (q_body q) (q_now q)"
  have kept: "getTpsReport (snd ?r) rid = Some report"
    using Cons.prems by (rule put_terminal_kept)
  note IH = Cons.IH [OF kept Cons.prems(2)]
  have head: "fst (fst ?r) = 403"
    if "q_id q = Some rid" and "q_session q = Some uid" and "uid \<noteq> 0" for uid
    using that put_terminal_refused [OF Cons.prems(1) Cons.prems(2), of uid "q_body q" "q_now q"]
    by (simp add: refused_def)
  show ?case
  proof (intro conjI allI impI)
    show "getTpsReport (snd (put_all st (q # qs))) rid = Some report"
      using IH by (simp add: Let_def)
    show "length (fst (put_all st (q # qs))) = length (q # qs)"
      using IH by (simp add: Let_def)
  next
    fix i
    assume i: "i < length (q # qs)" and tgt: "q_id ((q # qs) ! i) = Some rid"
      and auth: "\<exists>uid. q_session ((q # qs) ! i) = Some uid \<and> uid \<noteq> 0"
    show "fst (fst (put_all st (q # qs)) ! i) = 403"
    proof (cases i)
      case 0
      with tgt auth head show ?thesis by (auto simp: Let_def)
    next
      case (Suc j)
      with i tgt auth IH show ?thesis by (simp add: Let_def)
    qed
  qed
qed

section \<open>Facts about replication\<close>

lemma reset_emotional_state_ok:
  "formData \<noteq> JNull \<Longrightarrow> \<exists>fd. reset_emotional_state formData = Inr fd"
  by (simp add: reset_emotional_state_def split: option.splits)

lemma get_prop_set_prop_other:
  "k \<noteq> k' \<Longrightarrow> get_prop (set_prop v k' x) k = get_prop v k"
  by (cases v) (simp_all add: update_conv')

lemma get_prop_set_prop_same:
  "get_prop v k \<noteq> None \<Longrightarrow> get_prop (set_prop v k x) k = Some x"
  by (cases v) (simp_all add: update_conv')

lemma reset_emotional_state_props:
  assumes "reset_emotional_state formData = Inr fd"
  shows "(\<forall>k. k \<noteq> ''emotional_state'' \<longrightarrow> get_prop fd k = get_prop formData k)
       \<and> (case get_prop formData ''emotional_state'' of
             None \<Rightarrow> fd = formData
           | Some e \<Rightarrow>
               if truthy e
               then get_prop fd ''emotional_state''
                      = Some (JObj [(''matt'', JStr []), (''mina'', JStr [])])
               else fd = formData)"
  using assms
  by (auto simp: reset_emotional_state_def get_prop_set_prop_other get_prop_set_prop_same
        split: option.splits if_splits)

text \<open>The report and the store that a replication yields, written out.\<close>

lemma replicate_run:
  assumes "getTpsReport st i = Some original"
    and "reset_emotional_state (form_data original) = Inr formData"
  shows "replicateTpsReport st i today now =
     Inr (Some \<lparr>creator_id = creator_id original,
                 receiver_id = receiver_id original,
                 status = DRAFT,
                 date = today,
                 time_start = time_start original,
                 time_end = time_end original,
                 location = location original,
                 location_other = location_other original,
                 sound = sound original,
                 form_data = formData,
                 creator_notes = Some [],
                 receiver_notes = Some [],
                 creator_initials = Some [],
                 receiver_initials = Some [],
                 replicated_from_id = Some (id_r original),
                 pdf_path = Some [],
                 id_r = tpsId st, created_at = now, updated_at = now\<rparr>,
          st\<lparr>tpsId := tpsId st + 1,
             tpsReports := (tpsReports st)(tpsId st \<mapsto>
               \<lparr>creator_id = creator_id original,
                 receiver_id = receiver_id original,
                 status = DRAFT,
                 date = today,
                 time_start = time_start original,
                 time_end = time_end original,
                 location = location original,
                 location_other = location_other original,
                 sound = sound original,
                 form_data = formData,
                 creator_notes = Some [],
                 receiver_notes = Some [],
                 creator_initials = Some [],
                 receiver_initials = Some [],
                 replicated_from_id = Some (id_r original),
                 pdf_path = Some [],
                 id_r = tpsId st, created_at = now, updated_at = now\<rparr>),
             logId := logId st + 2,
             tpsLogs := (tpsLogs st)
               (logId st \<mapsto> \<lparr>tps_id = tpsId st, user_id = creator_id original,
                               action = ''created'', details = JObj [],
                               id_l = logId st, timestamp = now\<rparr>,
                logId st + 1 \<mapsto> \<lparr>tps_id = tpsId st, user_id = creator_id original,
                               action = ''replicated'',
                               details = JObj [(''original_id'', JNum (id_r original))],
                               id_l = logId st + 1, timestamp = now\<rparr>)\<rparr>)"
  using assms
  by (simp add: replicateTpsReport_def createTpsReport_def createTpsLog_def Let_def
        InsertTpsReport.defs TpsReport.defs InsertTpsLog.defs TpsLog.defs)

section \<open>The ids in use\<close>

lemma ids_fresh_next: "ids_fresh st \<Longrightarrow> tpsReports st (tpsId st) = None"
  by (simp add: ids_fresh_def)

lemma ids_fresh_MemStorage: "ids_fresh MemStorage"
  by (simp add: ids_fresh_def MemStorage_def)

lemma ids_fresh_create: "ids_fresh st \<Longrightarrow> ids_fresh (snd (createTpsReport st report now))"
  by (simp add: ids_fresh_def createTpsReport_def createTpsLog_def Let_def)

lemma ids_fresh_put:
  assumes "ids_fresh st"
  shows "ids_fresh (snd (put_tps_report st sess reportId updateData now))"
proof -
  have "snd (put_tps_report st sess reportId updateData now) = st
      \<or> (\<exists>uid rid fetched. snd (put_tps_report st sess reportId updateData now)
            = snd (put_resume st uid rid fetched updateData now))"
    by (auto simp: put_tps_report_mem split: option.splits)
  moreover have "ids_fresh (snd (put_resume st uid rid fetched updateData now))" for uid rid fetched
  proof -
    have id: "tpsId (snd (put_resume st uid rid fetched updateData now)) = tpsId st"
      by (auto simp: put_resume_mem updateTpsReport_def createTpsLog_def put_notify_def notify_def Let_def
            sendEmail_def addToCalendar_def split: option.splits prod.splits)
    have "tpsReports (snd (put_resume st uid rid fetched updateData now)) k = None"
      if "tpsId st \<le> k" for k
    proof (cases "k = rid")
      case True
      with that assms have "tpsReports st rid = None"
        by (simp add: ids_fresh_def)
      with True show ?thesis
        by (auto simp: put_resume_mem updateTpsReport_def split: option.splits)
    next
      case False
      with that assms show ?thesis
        by (simp add: put_resume_other ids_fresh_def)
    qed
    with id show ?thesis
      by (simp add: ids_fresh_def)
  qed
  ultimately show ?thesis
    using assms by auto
qed

lemma ids_fresh_replicate:
  assumes "ids_fresh st"
  shows "ids_fresh (snd (post_replicate st sess reportId today now))"
proof -
  have "ids_fresh st'" if "replicateTpsReport st rid today now = Inr (res, st')" for rid res st'
  proof (cases "getTpsReport st rid")
    case None
    with that assms show ?thesis
      by (simp add: replicateTpsReport_def)
  next
    case (Some original)
    with that obtain formData where fd: "reset_emotional_state (form_data original) = Inr formData"
      by (cases "reset_emotional_state (form_data original)") (auto simp: replicateTpsReport_def)
    from that assms show ?thesis
      unfolding replicate_run [OF Some fd] by (auto simp: ids_fresh_def)
  qed
  then show ?thesis
    using assms
    by (auto simp: post_replicate_mem split: option.splits sum.splits prod.splits)
qed

section \<open>Facts about the handlers on DatabaseStorage\<close>

lemmas db_defs = database_storage_def db_call_def db_getTpsReport_def db_updateTpsReport_def
  db_createTpsLog_def db_getUserWithPartner_def db_createTpsReport_def returns_def

lemma getUserWithPartner_written [simp]:
  "getUserWithPartner (snd (createTpsLog (written st i row) entry now)) uid = getUserWithPartner st uid"
  by (rule getUserWithPartner_users) (simp add: createTpsLog_def written_def Let_def)

lemma put_resume_db:
  assumes "put_permission report uid = None" and "tpsReports st rid = Some row"
    and "accepts db (put_calls st uid rid row data now)"
  shows "put_resume_on (database_storage db) st uid rid (Some report) data now
     = ((200, ReportBody (mergeTpsReport row data now)),
        notify (snd (createTpsLog (written st rid (mergeTpsReport row data now))
                  \<lparr>tps_id = rid, user_id = uid, action = ''updated'',
                   details = JObj [(''status'', JStr (status (mergeTpsReport row data now)))]\<rparr> now))
          report uid data now (getUserWithPartner st uid))"
  using assms
  by (simp add: put_resume_on_def db_defs accepts_def put_calls_def Let_def)

lemma put_resume_db_refused:
  assumes "put_permission report uid = None" and "tpsReports st rid = Some row"
    and "\<not> accepts db (put_calls st uid rid row data now)"
  shows "fst (put_resume_on (database_storage db) st uid rid (Some report) data now)
     = (500, Message ''Server error updating TPS report'')"
  using assms
  by (auto simp: put_resume_on_def db_defs accepts_def put_calls_def Let_def)

lemma put_resume_db_missing:
  assumes "put_permission report uid = None" and "tpsReports st rid = None"
  shows "fst (fst (put_resume_on (database_storage db) st uid rid (Some report) data now)) = 500"
  using assms
  by (auto simp: put_resume_on_def db_defs Let_def)

lemma put_resume_on_codes:
  "fst (fst (put_resume_on storage st uid rid fetched updateData now)) \<in> {200, 403, 404, 500}"
  by (auto simp: put_resume_on_def Let_def dest: put_permission_403
        split: option.splits prod.splits sum.splits)

lemma put_tps_report_on_codes:
  "fst (fst (put_tps_report_on storage st sess reportId updateData now))
     \<in> {200, 400, 401, 403, 404, 500}"
proof -
  have "fst (fst (put_tps_report_on storage st sess reportId updateData now)) \<in> {400, 401, 500}
      \<or> (\<exists>s u r f. put_tps_report_on storage st sess reportId updateData now
                 = put_resume_on storage s u r f updateData now)"
    by (auto simp: put_tps_report_on_def split: option.splits prod.splits sum.splits)
  then show ?thesis
  proof (elim disjE exE)
    assume "fst (fst (put_tps_report_on storage st sess reportId updateData now)) \<in> {400, 401, 500}"
    then show ?thesis by auto
  next
    fix s u r f
    assume "put_tps_report_on storage st sess reportId updateData now
              = put_resume_on storage s u r f updateData now"
    with put_resume_on_codes [of storage s u r f updateData now]
    show ?thesis by auto
  qed
qed

lemma put_tps_report_db:
  assumes "uid \<noteq> 0" and "\<not> refuses db st (GetTpsReport rid)"
  shows "put_tps_report_on (database_storage db) st (Some uid) (Some rid) data now
     = put_resume_on (database_storage db) st uid rid (tpsReports st rid) data now"
  using assms by (simp add: put_tps_report_on_def db_defs)

lemma put_tps_report_db_refused:
  assumes "uid \<noteq> 0" and "refuses db st (GetTpsReport rid)"
  shows "fst (put_tps_report_on (database_storage db) st (Some uid) (Some rid) data now)
     = (500, Message ''Server error updating TPS report'')"
  using assms by (simp add: put_tps_report_on_def db_defs)

lemma notify_reports [simp]:
  "tpsReports (notify st report uid updateData now userData) = tpsReports st"
  by (auto simp: notify_def Let_def sendEmail_def addToCalendar_def split: option.splits prod.splits)

lemma written_reports:
  "tpsReports (written st i row) k = (if k = id_r row then Some row else if k = i then None else tpsReports st k)"
  by (simp add: written_def)

lemma accepting_accepts [simp]: "accepts accepting calls"
  by (simp add: accepts_def accepting_def list_all_iff split: prod.splits)

lemma accepting_refuses [simp]: "\<not> refuses accepting st c"
  by (simp add: accepting_def)

lemma put_resume_db_codes:
  assumes "put_permission report uid = None"
  shows "fst (fst (put_resume_on (database_storage db) st uid rid (Some report) data now))
           \<in> {200, 500}"
proof (cases "tpsReports st rid")
  case None
  from put_resume_db_missing [OF assms None] show ?thesis by simp
next
  case (Some row)
  show ?thesis
  proof (cases "accepts db (put_calls st uid rid row data now)")
    case True
    from put_resume_db [OF assms Some True] show ?thesis by simp
  next
    case False
    from put_resume_db_refused [OF assms Some False] show ?thesis by simp
  qed
qed

lemma put_resume_db_200:
  assumes "put_permission report uid = None"
    and "fst (fst (put_resume_on (database_storage db) st uid rid (Some report) data now)) = 200"
  shows "\<exists>row. tpsReports st rid = Some row
       \<and> fst (put_resume_on (database_storage db) st uid rid (Some report) data now)
           = (200, ReportBody (mergeTpsReport row data now))
       \<and> tpsReports (snd (put_resume_on (database_storage db) st uid rid (Some report) data now))
           = tpsReports (written st rid (mergeTpsReport row data now))"
proof (cases "tpsReports st rid")
  case None
  from put_resume_db_missing [OF assms(1) None] assms(2) show ?thesis by simp
next
  case (Some row)
  show ?thesis
  proof (cases "accepts db (put_calls st uid rid row data now)")
    case True
    from put_resume_db [OF assms(1) Some True] Some show ?thesis
      by (simp add: createTpsLog_def Let_def)
  next
    case False
    from put_resume_db_refused [OF assms(1) Some False] assms(2) show ?thesis by simp
  qed
qed

lemma put_tps_report_db_200:
  assumes "tpsReports st rid = Some report" and "uid \<noteq> 0"
    and "fst (fst (put_tps_report_on (database_storage db) st (Some uid) (Some rid) data now)) = 200"
  shows "tpsReports (snd (put_tps_report_on (database_storage db) st (Some uid) (Some rid) data now))
           = tpsReports (written st rid (mergeTpsReport report data now))"
proof -
  let ?A = "put_tps_report_on (database_storage db) st (Some uid) (Some rid) data now"
  have g: "\<not> refuses db st (GetTpsReport rid)"
    using put_tps_report_db_refused [OF assms(2), of db st rid data now] assms(3) by auto
  have run: "?A = put_resume_on (database_storage db) st uid rid (Some report) data now"
    using put_tps_report_db [OF assms(2) g] assms(1) by simp
  have perm: "put_permission report uid = None"
  proof (cases "put_permission report uid")
    case None
    then show ?thesis .
  next
    case (Some refusal)
    then have "fst (fst ?A) = 403"
      by (auto simp: run put_resume_on_def dest: put_permission_403)
    with assms(3) show ?thesis by simp
  qed
  from put_resume_db_200 [OF perm assms(3) [unfolded run]] assms(1) show ?thesis
    by (auto simp: run)
qed




section \<open>Facts about the extractor\<close>

lemma push_fields_map:
  "push_fields i annotations formFields = formFields @ map (field_of i) annotations"
  by (induction annotations arbitrary: formFields) simp_all

lemma extract_from_eq:
  "extract_from pdfDoc i formFields
     = formFields @ concat (map (page_fields pdfDoc) [i ..< Suc (numPages pdfDoc)])"
proof (induction pdfDoc i formFields rule: extract_from.induct)
  case (1 pdfDoc i formFields)
  let ?pushed = "push_fields i
      (filter (\<lambda>annotation. subtype annotation = ''Widget'') (getPage pdfDoc i)) formFields"
  show ?case
  proof (cases "i \<le> numPages pdfDoc")
    case True
    have step: "extract_from pdfDoc i formFields = extract_from pdfDoc (i + 1) ?pushed"
      using True by (subst extract_from.simps) simp
    have rest: "extract_from pdfDoc (i + 1) ?pushed
        = ?pushed @ concat (map (page_fields pdfDoc) [i + 1 ..< Suc (numPages pdfDoc)])"
      using "1.IH" [OF True] .
    have pages: "[i ..< Suc (numPages pdfDoc)] = i # [i + 1 ..< Suc (numPages pdfDoc)]"
      using True by (simp add: upt_conv_Cons del: upt_Suc)
    have pushed: "?pushed = formFields @ page_fields pdfDoc i"
      by (simp add: push_fields_map page_fields_def)
    have "extract_from pdfDoc i formFields
        = ?pushed @ concat (map (page_fields pdfDoc) [i + 1 ..< Suc (numPages pdfDoc)])"
      by (simp only: step rest)
    also have "\<dots> = formFields @ concat (map (page_fields pdfDoc) [i ..< Suc (numPages pdfDoc)])"
      unfolding pages pushed by simp
    finally show ?thesis .
  next
    case False
    then show ?thesis
      by (subst extract_from.simps) simp
  qed
qed

lemma sample_doc_fields:
  "fields_in_page_order sample_doc
     = [field_of 1 (widget ''Widget'' ''a''), field_of 1 (widget ''Widget'' ''b''),
        field_of 2 (widget ''Widget'' ''c'')]"
proof -
  have pages: "[1 ..< Suc (numPages sample_doc)] = [1, 2]"
    by (simp add: sample_doc_def upt_conv_Cons)
  have p1: "page_fields sample_doc 1
      = [field_of 1 (widget ''Widget'' ''a''), field_of 1 (widget ''Widget'' ''b'')]"
    unfolding page_fields_def sample_doc_def by (simp add: widget_def)
  have p2: "page_fields sample_doc 2 = [field_of 2 (widget ''Widget'' ''c'')]"
    unfolding page_fields_def sample_doc_def by (simp add: widget_def)
  show ?thesis
    unfolding fields_in_page_order_def pages
    by (simp only: list.map concat.simps p1 p2 append_Cons append_Nil append_Nil2)
qed

section \<open>Facts about the rounding of doubles\<close>

lemma round_even_close: "\<bar>of_int (round_even x) - x\<bar> \<le> 1 / 2"
  unfolding round_even_def Let_def by (auto; linarith)

lemma round_even_unique: "\<bar>x - of_int n\<bar> < 1 / 2 \<Longrightarrow> round_even x = n"
proof -
  assume a: "\<bar>x - of_int n\<bar> < 1 / 2"
  have "\<bar>of_int (round_even x) - x\<bar> \<le> 1 / 2" by (rule round_even_close)
  with a have "\<bar>(of_int (round_even x) :: real) - of_int n\<bar> < 1" by linarith
  then have "\<bar>round_even x - n\<bar> < 1"
    by (metis of_int_diff of_int_abs of_int_less_1_iff)
  then show ?thesis by linarith
qed

lemma round_even_of_int: "round_even (of_int n) = n"
  by (rule round_even_unique) simp

lemma expo_bounds:
  assumes "x \<noteq> 0"
  shows "2 powr of_int (expo x) \<le> \<bar>x\<bar>" and "\<bar>x\<bar> < 2 powr (of_int (expo x) + 1)"
proof -
  have pos: "0 < \<bar>x\<bar>" using assms by simp
  have "of_int (expo x) \<le> log 2 \<bar>x\<bar>" unfolding expo_def by simp
  then have "2 powr of_int (expo x) \<le> 2 powr log 2 \<bar>x\<bar>" by simp
  with pos show "2 powr of_int (expo x) \<le> \<bar>x\<bar>" by simp
  have "log 2 \<bar>x\<bar> < of_int (expo x) + 1" unfolding expo_def by linarith
  then have "2 powr log 2 \<bar>x\<bar> < 2 powr (of_int (expo x) + 1)" by simp
  with pos show "\<bar>x\<bar> < 2 powr (of_int (expo x) + 1)" by simp
qed

lemma expo_eq:
  assumes "2 powr of_int e \<le> \<bar>x\<bar>" and "\<bar>x\<bar> < 2 powr (of_int e + 1)"
  shows "expo x = e"
proof -
  have "0 < (2::real) powr of_int e" by simp
  with assms(1) have pos: "0 < \<bar>x\<bar>" by linarith
  have "of_int e \<le> log 2 \<bar>x\<bar>"
    using assms(1) pos by (simp add: le_log_iff)
  moreover have "log 2 \<bar>x\<bar> < of_int e + 1"
    using assms(2) pos by (simp add: log_less_iff)
  ultimately show ?thesis unfolding expo_def by linarith
qed

lemma fl64_error: "\<bar>fl64 x - x\<bar> \<le> \<bar>x\<bar> / 2 ^ 53"
proof (cases "x = 0")
  case True
  then show ?thesis by (simp add: fl64_def)
next
  case False
  define u :: real where "u = 2 powr (of_int (expo x) - 52)"
  have upos: "0 < u" by (simp add: u_def)
  have fl: "fl64 x = of_int (round_even (x / u)) * u"
    using False by (simp add: fl64_def u_def Let_def)
  have "\<bar>of_int (round_even (x / u)) - x / u\<bar> \<le> 1 / 2" by (rule round_even_close)
  then have "\<bar>of_int (round_even (x / u)) - x / u\<bar> * u \<le> 1 / 2 * u"
    using upos by (intro mult_right_mono) simp_all
  moreover have "\<bar>of_int (round_even (x / u)) - x / u\<bar> * u = \<bar>of_int (round_even (x / u)) * u - x\<bar>"
  proof -
    have "\<bar>of_int (round_even (x / u)) - x / u\<bar> * u = \<bar>(of_int (round_even (x / u)) - x / u) * u\<bar>"
      using upos by (simp add: abs_mult)
    also have "(of_int (round_even (x / u)) - x / u) * u = of_int (round_even (x / u)) * u - x"
      using upos by (simp add: algebra_simps)
    finally show ?thesis .
  qed
  ultimately have e1: "\<bar>fl64 x - x\<bar> \<le> u / 2" by (simp add: fl)
  have "u = 2 powr of_int (expo x) / 2 ^ 52"
    by (simp add: u_def powr_diff)
  moreover have "2 powr of_int (expo x) \<le> \<bar>x\<bar>" by (rule expo_bounds [OF False])
  ultimately have "u \<le> \<bar>x\<bar> / 2 ^ 52" by (simp add: divide_right_mono)
  with e1 show ?thesis by simp
qed

lemma fl64_nonneg:
  assumes "0 \<le> x"
  shows "0 \<le> fl64 x"
proof -
  have "\<bar>x\<bar> / 2 ^ 53 \<le> x" using assms by simp
  with fl64_error [of x] show ?thesis by linarith
qed


lemma fl64_pos:
  assumes "0 < x"
  shows "0 < fl64 x"
proof -
  have "\<bar>x\<bar> / 2 ^ 53 < x" using assms by simp
  with fl64_error [of x] show ?thesis by linarith
qed

lemma fl64_neg:
  assumes "x < 0"
  shows "fl64 x < 0"
proof -
  have "\<bar>x\<bar> / 2 ^ 53 < - x" using assms by simp
  with fl64_error [of x] show ?thesis by linarith
qed

lemma fl64_eval:
  assumes "2 powr of_int e \<le> \<bar>x\<bar>" and "\<bar>x\<bar> < 2 powr (of_int e + 1)"
    and "\<bar>x / 2 powr (of_int e - 52) - of_int n\<bar> < 1 / 2"
  shows "fl64 x = of_int n * 2 powr (of_int e - 52)"
proof -
  have "0 < (2::real) powr of_int e" by simp
  with assms(1) have "0 < \<bar>x\<bar>" by linarith
  then have nz: "x \<noteq> 0" by simp
  have "expo x = e" by (rule expo_eq [OF assms(1,2)])
  with nz assms(3) show ?thesis
    by (simp add: fl64_def Let_def round_even_unique)
qed

lemma fl64_int:
  assumes "\<bar>n\<bar> < 2 ^ 53"
  shows "fl64 (of_int n) = of_int n"
proof (cases "n = 0")
  case True
  then show ?thesis by (simp add: fl64_def)
next
  case False
  define x :: real where "x = of_int n"
  have nz: "x \<noteq> 0" using False by (simp add: x_def)
  define e where "e = expo x"
  have lo: "2 powr of_int e \<le> \<bar>x\<bar>" unfolding e_def by (rule expo_bounds [OF nz])
  have "\<bar>x\<bar> < 2 ^ 53"
  proof -
    have "(of_int \<bar>n\<bar> :: real) < of_int (2 ^ 53)" using assms by (simp only: of_int_less_iff)
    then show ?thesis by (simp add: x_def)
  qed
  with lo have "(2::real) powr of_int e < 2 ^ 53" by linarith
  also have "(2::real) ^ 53 = 2 powr of_int 53" by simp
  finally have "real_of_int e < of_int 53"
    using powr_less_cancel_iff [of "2::real" "real_of_int e" "real_of_int 53"]
    by (simp only: one_less_numeral_iff num.simps Num.less_num_simps)
  then have e53: "e < 53" by (simp only: of_int_less_iff)
  define k where "k = nat (52 - e)"
  have "of_int e - 52 = - real k" using e53 by (simp add: k_def)
  then have "(2::real) powr (of_int e - 52) = 2 powr (- real k)" by (simp only:)
  then have u: "(2::real) powr (of_int e - 52) = 1 / 2 ^ k"
    by (simp add: powr_minus powr_realpow divide_inverse)
  have "x / (1 / 2 ^ k) = of_int (n * 2 ^ k)" by (simp add: x_def)
  then have "round_even (x / (1 / 2 ^ k)) = n * 2 ^ k"
    by (simp only: round_even_of_int)
  then have "fl64 x = of_int (n * 2 ^ k) * (1 / 2 ^ k)"
    using nz by (simp add: fl64_def Let_def e_def [symmetric] u)
  then show ?thesis by (simp add: x_def)
qed


lemma fl64_0 [simp]: "fl64 0 = 0"
  by (simp add: fl64_def)

lemma fl64_numeral [simp]: "(numeral k :: int) < 2 ^ 53 \<Longrightarrow> fl64 (numeral k) = numeral k"
  using fl64_int [of "numeral k"] by simp

lemma fl64_neg_numeral [simp]:
  "(numeral k :: int) < 2 ^ 53 \<Longrightarrow> fl64 (- numeral k) = - numeral k"
  using fl64_int [of "- numeral k"] by simp

lemma fl64_eval_nat:
  assumes "2 ^ j \<le> \<bar>x\<bar>" and "\<bar>x\<bar> < 2 ^ (j + 1)" and "j \<le> 52"
    and "\<bar>x * 2 ^ (52 - j) - of_int n\<bar> < 1 / 2"
  shows "fl64 x = of_int n / 2 ^ (52 - j)"
proof -
  have "real_of_int (int j) - 52 = - real (52 - j)" using assms(3) by simp
  then have "(2::real) powr (of_int (int j) - 52) = 2 powr (- real (52 - j))" by (simp only:)
  then have u: "(2::real) powr (of_int (int j) - 52) = 1 / 2 ^ (52 - j)"
    by (simp add: powr_minus powr_realpow divide_inverse)
  have "fl64 x = of_int n * 2 powr (of_int (int j) - 52)"
  proof (rule fl64_eval)
    show "2 powr real_of_int (int j) \<le> \<bar>x\<bar>"
      using assms(1) by (simp add: powr_realpow)
    have "real_of_int (int j) + 1 = real (j + 1)" by simp
    then have "(2::real) powr (real_of_int (int j) + 1) = 2 ^ (j + 1)"
      by (simp only: powr_realpow zero_less_numeral)
    with assms(2) show "\<bar>x\<bar> < 2 powr (real_of_int (int j) + 1)" by simp
    show "\<bar>x / 2 powr (real_of_int (int j) - 52) - real_of_int n\<bar> < 1 / 2"
      using assms(4) unfolding u by simp
  qed
  then show ?thesis unfolding u by simp
qed

lemma scale_800: "fl64 (160 / 119) = 3027630001593611 / 2251799813685248"
  using fl64_eval_nat [of 0 "160 / 119" 6055260003187222] by simp

lemma width_800:
  "fl64 (1801439850948198545 / 2251799813685248) = 7036874417766401 / 8796093022208"
  using fl64_eval_nat [of 9 "1801439850948198545 / 2251799813685248" 7036874417766401] by simp

lemma fl64_step:
  assumes "\<bar>y - x\<bar> \<le> k * \<bar>x\<bar> / 2 ^ 53" and "0 \<le> k"
  shows "\<bar>fl64 y - x\<bar> \<le> (k + 1 + k / 2 ^ 53) * \<bar>x\<bar> / 2 ^ 53"
proof -
  have "\<bar>y\<bar> \<le> \<bar>x\<bar> + k * \<bar>x\<bar> / 2 ^ 53" using assms(1) by linarith
  then have "\<bar>y\<bar> / 2 ^ 53 \<le> (\<bar>x\<bar> + k * \<bar>x\<bar> / 2 ^ 53) / 2 ^ 53"
    by (simp add: divide_right_mono)
  with fl64_error [of y] have "\<bar>fl64 y - y\<bar> \<le> (\<bar>x\<bar> + k * \<bar>x\<bar> / 2 ^ 53) / 2 ^ 53"
    by linarith
  with assms(1) have "\<bar>fl64 y - x\<bar> \<le> (\<bar>x\<bar> + k * \<bar>x\<bar> / 2 ^ 53) / 2 ^ 53 + k * \<bar>x\<bar> / 2 ^ 53"
    by linarith
  also have "\<dots> = (k + 1 + k / 2 ^ 53) * \<bar>x\<bar> / 2 ^ 53"
    by (simp add: algebra_simps add_divide_distrib)
  finally show ?thesis .
qed

lemma scale_error:
  "\<bar>a * fl64 s - a * s\<bar> \<le> 1 * \<bar>a * s\<bar> / 2 ^ 53"
proof -
  have "\<bar>a * fl64 s - a * s\<bar> = \<bar>a\<bar> * \<bar>fl64 s - s\<bar>"
    by (simp add: abs_mult [symmetric] algebra_simps)
  also have "\<dots> \<le> \<bar>a\<bar> * (\<bar>s\<bar> / 2 ^ 53)"
    by (intro mult_left_mono fl64_error) simp
  finally show ?thesis by (simp add: abs_mult)
qed

lemma left_error:
  "\<bar>fl64 (a * fl64 s) - a * s\<bar> \<le> 3 * \<bar>a * s\<bar> / 2 ^ 53"
proof -
  have "\<bar>fl64 (a * fl64 s) - a * s\<bar> \<le> (1 + 1 + 1 / 2 ^ 53) * \<bar>a * s\<bar> / 2 ^ 53"
    by (rule fl64_step [OF scale_error]) simp
  also have "\<dots> \<le> 3 * \<bar>a * s\<bar> / 2 ^ 53"
    by (intro divide_right_mono mult_right_mono) simp_all
  finally show ?thesis .
qed

lemma width_error:
  "\<bar>fl64 (fl64 d * fl64 s) - d * s\<bar> \<le> 4 * \<bar>d * s\<bar> / 2 ^ 53"
proof -
  have d: "\<bar>fl64 d - d\<bar> \<le> \<bar>d\<bar> / 2 ^ 53" by (rule fl64_error)
  then have d': "\<bar>fl64 d\<bar> \<le> \<bar>d\<bar> + \<bar>d\<bar> / 2 ^ 53" by linarith
  have 1: "\<bar>fl64 d * fl64 s - fl64 d * s\<bar> \<le> \<bar>fl64 d * s\<bar> / 2 ^ 53"
    using scale_error [of "fl64 d" s] by simp
  have "\<bar>fl64 d * s\<bar> = \<bar>fl64 d\<bar> * \<bar>s\<bar>" by (simp add: abs_mult)
  also have "\<dots> \<le> (\<bar>d\<bar> + \<bar>d\<bar> / 2 ^ 53) * \<bar>s\<bar>"
    using d' by (intro mult_right_mono) simp_all
  finally have 2: "\<bar>fl64 d * s\<bar> / 2 ^ 53 \<le> (\<bar>d\<bar> + \<bar>d\<bar> / 2 ^ 53) * \<bar>s\<bar> / 2 ^ 53"
    by (simp add: divide_right_mono)
  have "\<bar>fl64 d * s - d * s\<bar> = \<bar>fl64 d - d\<bar> * \<bar>s\<bar>"
    by (simp add: abs_mult [symmetric] algebra_simps)
  also have "\<dots> \<le> \<bar>d\<bar> / 2 ^ 53 * \<bar>s\<bar>"
    using d by (intro mult_right_mono) simp_all
  finally have 3: "\<bar>fl64 d * s - d * s\<bar> \<le> \<bar>d\<bar> / 2 ^ 53 * \<bar>s\<bar>" .
  have "\<bar>fl64 d * fl64 s - d * s\<bar> \<le> (\<bar>d\<bar> + \<bar>d\<bar> / 2 ^ 53) * \<bar>s\<bar> / 2 ^ 53 + \<bar>d\<bar> / 2 ^ 53 * \<bar>s\<bar>"
    using 1 2 3 by linarith
  also have "\<dots> = (2 + 1 / 2 ^ 53) * \<bar>d * s\<bar> / 2 ^ 53"
    by (simp add: abs_mult algebra_simps add_divide_distrib)
  finally have "\<bar>fl64 (fl64 d * fl64 s) - d * s\<bar>
      \<le> ((2 + 1 / 2 ^ 53) + 1 + (2 + 1 / 2 ^ 53) / 2 ^ 53) * \<bar>d * s\<bar> / 2 ^ 53"
    by (rule fl64_step) simp
  also have "\<dots> \<le> 4 * \<bar>d * s\<bar> / 2 ^ 53"
    by (intro divide_right_mono mult_right_mono) simp_all
  finally show ?thesis .
qed

section \<open>Claim C1: the status changes of a report\<close>





section \<open>Claim C2: who may write\<close>

text \<open>
  Claim C2. For a request of a logged-in user to update a report that exists: a user who
  is neither the creator nor the receiver of the report is answered 403 Forbidden; so is
  anyone but the creator while the report is a draft, anyone but the receiver while it is
  pending review, and anyone but the creator while it is pending approval. In each of
  these cases the store, and so the report, is left as it was. Hence an update that is
  answered 200 comes from the owner of the status.
\<close>

theorem update_refused_for_non_owner:
  assumes "getTpsReport st rid = Some report" and "uid \<noteq> 0"
  shows "(uid \<noteq> creator_id report \<and> uid \<noteq> receiver_id report \<longrightarrow>
            refused st (put_tps_report st (Some uid) (Some rid) updateData now))
       \<and> (status report = DRAFT \<and> uid \<noteq> creator_id report \<longrightarrow>
            refused st (put_tps_report st (Some uid) (Some rid) updateData now))
       \<and> (status report = PENDING_REVIEW \<and> uid \<noteq> receiver_id report \<longrightarrow>
            refused st (put_tps_report st (Some uid) (Some rid) updateData now))
       \<and> (status report = PENDING_APPROVAL \<and> uid \<noteq> creator_id report \<longrightarrow>
            refused st (put_tps_report st (Some uid) (Some rid) updateData now))
       \<and> (fst (fst (put_tps_report st (Some uid) (Some rid) updateData now)) = 200 \<longrightarrow>
            (status report = DRAFT \<longrightarrow> uid = creator_id report) \<and>
            (status report = PENDING_REVIEW \<longrightarrow> uid = receiver_id report) \<and>
            (status report = PENDING_APPROVAL \<longrightarrow> uid = creator_id report))"
  using assms
  by (auto simp: refused_def put_tps_report_mem put_resume_mem put_permission_def Let_def)

theorem update_refused_for_non_owner_witness:
  "refused (store_with DRAFT)
     (put_tps_report (store_with DRAFT) (Some 2) (Some 1) (set_status PENDING_REVIEW) 20)
   \<and> refused (store_with PENDING_REVIEW)
       (put_tps_report (store_with PENDING_REVIEW) (Some 1) (Some 1) (set_status ABORTED) 20)
   \<and> refused (store_with PENDING_APPROVAL)
       (put_tps_report (store_with PENDING_APPROVAL) (Some 2) (Some 1) (set_status COMPLETED) 20)
   \<and> refused (store_with DRAFT)
       (put_tps_report (store_with DRAFT) (Some 7) (Some 1) no_change 20)"
  using update_refused_for_non_owner [OF sample_report, of 2 DRAFT "set_status PENDING_REVIEW" 20]
    update_refused_for_non_owner [OF sample_report, of 1 PENDING_REVIEW "set_status ABORTED" 20]
    update_refused_for_non_owner [OF sample_report, of 2 PENDING_APPROVAL "set_status COMPLETED" 20]
    update_refused_for_non_owner [OF sample_report, of 7 DRAFT no_change 20]
  by (simp add: sample_report_fields)

section \<open>Claim C3: terminal reports\<close>

text \<open>
  Claim C3. Once the status of a report is completed or aborted, every request of a
  logged-in user to update it is refused with 403 Forbidden, whoever the user is, and the
  store is left as it was. Along any list of update requests handled in order, whatever
  their targets and users, the report stays exactly as it is, and every one of them that
  addresses it with a session is answered 403.
\<close>

theorem terminal_report_update_forbidden:
  assumes "getTpsReport st rid = Some report"
    and "status report = COMPLETED \<or> status report = ABORTED"
  shows "(\<forall>uid updateData now. uid \<noteq> 0 \<longrightarrow>
            refused st (put_tps_report st (Some uid) (Some rid) updateData now))
       \<and> getTpsReport (snd (put_all st qs)) rid = Some report
       \<and> (\<forall>i < length qs. q_id (qs ! i) = Some rid \<longrightarrow>
             (\<exists>uid. q_session (qs ! i) = Some uid \<and> uid \<noteq> 0) \<longrightarrow>
             fst (fst (put_all st qs) ! i) = 403)"
  using put_terminal_refused [OF assms] put_all_terminal [OF assms, of qs] by blast

theorem terminal_report_update_forbidden_witness:
  "refused (store_with COMPLETED)
     (put_tps_report (store_with COMPLETED) (Some 1) (Some 1) (set_status DRAFT) 20)
   \<and> getTpsReport
        (snd (put_all (store_with ABORTED)
           [\<lparr>q_session = Some 1, q_id = Some 1, q_body = set_status DRAFT, q_now = 20\<rparr>,
            \<lparr>q_session = Some 2, q_id = Some 1, q_body = set_status COMPLETED, q_now = 21\<rparr>])) 1
      = getTpsReport (store_with ABORTED) 1"
proof -
  let ?done = "InsertTpsReport.extend (sample COMPLETED) (TpsReport.fields 1 10 10)"
  let ?gone = "InsertTpsReport.extend (sample ABORTED) (TpsReport.fields 1 10 10)"
  have t1: "status ?done = COMPLETED \<or> status ?done = ABORTED"
    by (simp add: sample_report_fields)
  have t2: "status ?gone = COMPLETED \<or> status ?gone = ABORTED"
    by (simp add: sample_report_fields)
  have a: "refused (store_with COMPLETED)
              (put_tps_report (store_with COMPLETED) (Some 1) (Some 1) (set_status DRAFT) 20)"
    using terminal_report_update_forbidden [OF sample_report t1, of "[]", THEN conjunct1]
    by simp
  note b = terminal_report_update_forbidden [OF sample_report t2, THEN conjunct2, THEN conjunct1]
  show ?thesis
    using a by (simp only: b sample_report)
qed

section \<open>Claim C4: the store's update\<close>

text \<open>
  Claim C4 as stated fails. The store holds report 1 with the status completed;
  \<open>updateTpsReport\<close> with a payload that sets the status to draft returns the report
  with the status draft and stores it.
\<close>

theorem store_update_terminal_counterexample:
  "map_option status (getTpsReport (store_with COMPLETED) 1) = Some COMPLETED
   \<and> map_option status (fst (updateTpsReport (store_with COMPLETED) 1 (set_status DRAFT) 20))
      = Some DRAFT
   \<and> map_option status
        (getTpsReport (snd (updateTpsReport (store_with COMPLETED) 1 (set_status DRAFT) 20)) 1)
      = Some DRAFT
   \<and> DRAFT \<noteq> COMPLETED"
  by (simp add: store_defs sample_defs Let_def TpsStatus_defs)

text \<open>
  Claim C4, amended. \<open>updateTpsReport\<close> does not look at the status. For an id the store
  holds, it returns the row merged with the payload and \<open>updated_at\<close> set to the instant
  of the call, and stores it under that id, leaving every other report as it was: the
  status of the result is the payload's when the payload has one. For an id the store
  does not hold, it returns nothing and leaves the store as it was. Refusing to change a
  completed or aborted report is left to the route.
\<close>

theorem store_update_ignores_status:
  "(case getTpsReport st i of
      None \<Rightarrow> updateTpsReport st i data now = (None, st)
    | Some report \<Rightarrow>
        fst (updateTpsReport st i data now) = Some (mergeTpsReport report data now)
        \<and> getTpsReport (snd (updateTpsReport st i data now)) i
            = Some (mergeTpsReport report data now)
        \<and> status (mergeTpsReport report data now)
            = (case p_status data of None \<Rightarrow> status report | Some s \<Rightarrow> s)
        \<and> updated_at (mergeTpsReport report data now) = now
        \<and> (\<forall>j. j \<noteq> i \<longrightarrow>
              getTpsReport (snd (updateTpsReport st i data now)) j = getTpsReport st j))"
  by (simp add: getTpsReport_def updateTpsReport_def Let_def mergeTpsReport_def spread_def
        split: option.splits)

theorem store_update_ignores_status_witness:
  "fst (updateTpsReport (store_with ABORTED) 1 (set_status PENDING_REVIEW) 20)
     = Some (mergeTpsReport (InsertTpsReport.extend (sample ABORTED) (TpsReport.fields 1 10 10))
               (set_status PENDING_REVIEW) 20)
   \<and> status (mergeTpsReport (InsertTpsReport.extend (sample ABORTED) (TpsReport.fields 1 10 10))
               (set_status PENDING_REVIEW) 20) = PENDING_REVIEW
   \<and> updateTpsReport (store_with ABORTED) 5 (set_status PENDING_REVIEW) 20
       = (None, store_with ABORTED)"
proof -
  have none: "getTpsReport (store_with ABORTED) 5 = None"
    by (simp add: store_defs sample_defs Let_def)
  have p: "p_status (set_status PENDING_REVIEW) = Some PENDING_REVIEW"
    by (simp add: set_status_def)
  show ?thesis
    using store_update_ignores_status [of "store_with ABORTED" 1 "set_status PENDING_REVIEW" 20]
      store_update_ignores_status [of "store_with ABORTED" 5 "set_status PENDING_REVIEW" 20]
    by (simp add: sample_report none p)
qed

section \<open>Claim C5: replication of a terminal report\<close>

text \<open>
  Claim C5 as stated fails. The completed report 1 carries the creator's note
  \<open>bring candles\<close>; replicating it is answered 201 and stores report 2 with
  \<open>replicated_from_id = 1\<close>, whose creator's note is the empty string: a content field
  that is neither emotional state, initials nor date is not equal to the original's.
\<close>

theorem replicate_clears_notes_counterexample:
  "map_option status (getTpsReport (store_with COMPLETED) 1) = Some COMPLETED
   \<and> map_option creator_notes (getTpsReport (store_with COMPLETED) 1) = Some (Some ''bring candles'')
   \<and> fst (fst (post_replicate (store_with COMPLETED) (Some 1) (Some 1) ''2025-02-02'' 30)) = 201
   \<and> map_option replicated_from_id
        (getTpsReport (snd (post_replicate (store_with COMPLETED) (Some 1) (Some 1) ''2025-02-02'' 30)) 2)
      = Some (Some 1)
   \<and> map_option creator_notes
        (getTpsReport (snd (post_replicate (store_with COMPLETED) (Some 1) (Some 1) ''2025-02-02'' 30)) 2)
      = Some (Some [])"
  by (simp add: post_replicate_mem replicateTpsReport_def reset_emotional_state_def store_defs
        sample_defs Let_def TpsStatus_defs)

text \<open>
  Claim C5, amended. Let R be a report whose status is completed or aborted and whose
  \<open>form_data\<close> is not null, in a store whose counter is ahead of the ids in use.
  Replicating R, for any logged-in user, is answered 201 with a report R' that is stored
  under the next id, and: the status of R' is draft; \<open>replicated_from_id\<close> is the id of R; the date is the
  current date; both initials, both notes and \<open>pdf_path\<close> are the empty string; creator,
  receiver, start and end time, location, other location and sound are those of R; the
  entry \<open>emotional_state\<close> of \<open>form_data\<close>, when R has one that is truthy, is the object
  with empty \<open>matt\<close> and \<open>mina\<close>, and \<open>form_data\<close> is otherwise that of R: every other
  entry is equal. R and all other reports stay as they are.
\<close>

theorem replicate_terminal_report:
  assumes "getTpsReport st rid = Some R"
    and "status R = COMPLETED \<or> status R = ABORTED"
    and "form_data R \<noteq> JNull"
    and "uid \<noteq> 0"
    and "ids_fresh st"
  shows "\<exists>R' st'.
           post_replicate st (Some uid) (Some rid) today now = ((201, ReportBody R'), st')
         \<and> status R' = DRAFT
         \<and> replicated_from_id R' = Some (id_r R)
         \<and> date R' = today
         \<and> creator_initials R' = Some [] \<and> receiver_initials R' = Some []
         \<and> creator_notes R' = Some [] \<and> receiver_notes R' = Some []
         \<and> pdf_path R' = Some []
         \<and> creator_id R' = creator_id R \<and> receiver_id R' = receiver_id R
         \<and> time_start R' = time_start R \<and> time_end R' = time_end R
         \<and> location R' = location R \<and> location_other R' = location_other R
         \<and> sound R' = sound R
         \<and> (\<forall>k. k \<noteq> ''emotional_state'' \<longrightarrow>
               get_prop (form_data R') k = get_prop (form_data R) k)
         \<and> (case get_prop (form_data R) ''emotional_state'' of
               None \<Rightarrow> form_data R' = form_data R
             | Some e \<Rightarrow>
                 if truthy e
                 then get_prop (form_data R') ''emotional_state''
                        = Some (JObj [(''matt'', JStr []), (''mina'', JStr [])])
                 else form_data R' = form_data R)
         \<and> getTpsReport st' (tpsId st) = Some R'
         \<and> (\<forall>k. k \<noteq> tpsId st \<longrightarrow> getTpsReport st' k = getTpsReport st k)
         \<and> getTpsReport st' rid = Some R"
proof -
  obtain formData where fd: "reset_emotional_state (form_data R) = Inr formData"
    using reset_emotional_state_ok [OF assms(3)] by blast
  note props = reset_emotional_state_props [OF fd]
  have fresh: "rid \<noteq> tpsId st"
    using assms(1) ids_fresh_next [OF assms(5)] by (auto simp: getTpsReport_def)
  have terminal: "\<not> (status R \<noteq> COMPLETED \<and> status R \<noteq> ABORTED)"
    using assms(2) by blast
  show ?thesis
    using props assms(1,4) fresh terminal
    by (auto simp: post_replicate_mem replicate_run [OF assms(1) fd] getTpsReport_def
          split: option.splits if_splits)
qed

theorem replicate_terminal_report_witness:
  "fst (fst (post_replicate (store_with COMPLETED) (Some 2) (Some 1) ''2025-02-02'' 30)) = 201
   \<and> getTpsReport (snd (post_replicate (store_with COMPLETED) (Some 2) (Some 1) ''2025-02-02'' 30)) 1
      = getTpsReport (store_with COMPLETED) 1"
proof -
  let ?R = "InsertTpsReport.extend (sample COMPLETED) (TpsReport.fields 1 10 10)"
  have terminal: "status ?R = COMPLETED \<or> status ?R = ABORTED"
    by (simp add: sample_report_fields)
  have user: "(2::int) \<noteq> 0"
    by simp
  have fresh: "ids_fresh (store_with COMPLETED)"
    unfolding store_with_def by (rule ids_fresh_create [OF ids_fresh_MemStorage])
  from replicate_terminal_report [OF sample_report terminal sample_report_fields(4) user fresh,
      of "''2025-02-02''" 30]
  obtain R' st' where
    "post_replicate (store_with COMPLETED) (Some 2) (Some 1) ''2025-02-02'' 30
       = ((201, ReportBody R'), st')"
    and "getTpsReport st' 1 = Some ?R"
    by blast
  then show ?thesis
    by (simp add: sample_report)
qed

section \<open>Claim C6: approval by the creator\<close>

text \<open>
  Claim C6 as stated fails. Report 1 is pending approval and has no creator's initials;
  the creator sends an update that sets the status to completed and carries no initials.
  It is answered 200, the report is stored as completed with no creator's initials, and
  the one e-mail sent goes to the creator's partner: on the class \<open>MemStorage\<close>, and on the
  class \<open>DatabaseStorage\<close> with a database that accepts the calls.
\<close>

theorem complete_without_initials_counterexample:
  "map_option status (getTpsReport (store_with PENDING_APPROVAL) 1) = Some PENDING_APPROVAL
   \<and> map_option creator_initials (getTpsReport (store_with PENDING_APPROVAL) 1) = Some None
   \<and> p_creator_initials (set_status COMPLETED) = None
   \<and> fst (fst (put_tps_report (store_with PENDING_APPROVAL) (Some 1) (Some 1) (set_status COMPLETED) 20))
      = 200
   \<and> map_option status
        (getTpsReport
           (snd (put_tps_report (store_with PENDING_APPROVAL) (Some 1) (Some 1) (set_status COMPLETED) 20)) 1)
      = Some COMPLETED
   \<and> map_option creator_initials
        (getTpsReport
           (snd (put_tps_report (store_with PENDING_APPROVAL) (Some 1) (Some 1) (set_status COMPLETED) 20)) 1)
      = Some None
   \<and> map to_addr
        (outbox (snd (put_tps_report (store_with PENDING_APPROVAL) (Some 1) (Some 1) (set_status COMPLETED) 20)))
      = [email mina]
   \<and> fst (fst (put_tps_report_on (database_storage accepting) (store_with PENDING_APPROVAL)
                 (Some 1) (Some 1) (set_status COMPLETED) 20))
      = 200
   \<and> map_option status
        (getTpsReport
           (snd (put_tps_report_on (database_storage accepting) (store_with PENDING_APPROVAL)
                   (Some 1) (Some 1) (set_status COMPLETED) 20)) 1)
      = Some COMPLETED
   \<and> map_option creator_initials
        (getTpsReport
           (snd (put_tps_report_on (database_storage accepting) (store_with PENDING_APPROVAL)
                   (Some 1) (Some 1) (set_status COMPLETED) 20)) 1)
      = Some None
   \<and> map to_addr
        (outbox (snd (put_tps_report_on (database_storage accepting) (store_with PENDING_APPROVAL)
                        (Some 1) (Some 1) (set_status COMPLETED) 20)))
      = [email mina]"
  by (simp add: store_defs sample_defs Let_def TpsStatus_defs put_defs put_permission_def notify_def
        put_tps_report_on_def put_resume_on_def db_defs accepting_def written_def)

text \<open>
  Claim C6, amended, for the route on the class \<open>DatabaseStorage\<close>. A report is pending
  approval, and a logged-in user sends an update whose payload sets the status to
  completed. When the database refuses the read of the report, the answer is 500. When it
  does not: anyone but the creator is refused with 403 and nothing is written; the
  creator's request never depends on initials. It is answered 500 when the database
  refuses the update, the log entry or the read of the users, and 200 when it accepts
  them: then the row returned has the status completed and the creator's initials of the
  payload when it has the key, those of the report otherwise, and it is stored under its
  id. Then, when the creator's user record and the partner's are found, one e-mail is
  sent, to the partner, and the calendar event \<open>Review TPS Reports\<close> is added for the
  creator and for the partner; when they are not found, nothing is sent or added.
\<close>

theorem completion_by_creator:
  assumes "getTpsReport st rid = Some report"
    and "status report = PENDING_APPROVAL"
    and "uid \<noteq> 0"
    and "p_status updateData = Some COMPLETED"
  shows
    "(let answer = put_tps_report_on (database_storage db) st (Some uid) (Some rid) updateData now;
          updated = mergeTpsReport report updateData now;
          event = \<lparr>summary = ''Review TPS Reports'', start = now,
                   description = [Text ''TPS Report #'', Number (id_r report),
                                  Text '' review time!'']\<rparr>
      in (refuses db st (GetTpsReport rid) \<longrightarrow>
            fst answer = (500, Message ''Server error updating TPS report''))
       \<and> (\<not> refuses db st (GetTpsReport rid) \<and> uid \<noteq> creator_id report \<longrightarrow>
            refused st answer)
       \<and> (\<not> refuses db st (GetTpsReport rid) \<and> uid = creator_id report \<longrightarrow>
            (\<not> accepts db (put_calls st uid rid report updateData now) \<longrightarrow>
               fst answer = (500, Message ''Server error updating TPS report''))
          \<and> (accepts db (put_calls st uid rid report updateData now) \<longrightarrow>
               fst answer = (200, ReportBody updated)
             \<and> status updated = COMPLETED
             \<and> creator_initials updated
                 = spread (creator_initials report) (p_creator_initials updateData)
             \<and> getTpsReport (snd answer) (id_r updated) = Some updated
             \<and> (case getUserWithPartner st uid of
                   None \<Rightarrow> outbox (snd answer) = outbox st \<and> calendar (snd answer) = calendar st
                 | Some (user, partner) \<Rightarrow>
                     outbox (snd answer)
                       = outbox st @
                         [\<lparr>to_addr = email partner, subject = ''TPS Report Completed'',
                           body = name_u user @ '' has approved the TPS report. It's time to review TPS reports!''\<rparr>]
                     \<and> calendar (snd answer)
                         = calendar st @ [(uid, event), (id_u partner, event)]))))"
proof -
  let ?answer = "put_tps_report_on (database_storage db) st (Some uid) (Some rid) updateData now"
  let ?updated = "mergeTpsReport report updateData now"
  let ?event = "\<lparr>summary = ''Review TPS Reports'', start = now,
                   description = [Text ''TPS Report #'', Number (id_r report),
                                  Text '' review time!'']\<rparr>"
  have row: "tpsReports st rid = Some report"
    using assms(1) by (simp add: getTpsReport_def)
  have thrown: "fst ?answer = (500, Message ''Server error updating TPS report'')"
    if "refuses db st (GetTpsReport rid)"
    using that assms(3) by (rule put_tps_report_db_refused [rotated])
  have resume: "?answer = put_resume_on (database_storage db) st uid rid (Some report) updateData now"
    if "\<not> refuses db st (GetTpsReport rid)"
    using put_tps_report_db [OF assms(3) that] row by simp
  have other: "refused st ?answer"
    if "\<not> refuses db st (GetTpsReport rid)" and "uid \<noteq> creator_id report"
    using that(2) assms(2)
    by (auto simp: resume [OF that(1)] refused_def put_resume_on_def put_permission_def Let_def)
  have perm: "put_permission report uid = None" if "uid = creator_id report"
    using assms(2) that by (simp add: put_permission_def Let_def TpsStatus_defs)
  have failed: "fst ?answer = (500, Message ''Server error updating TPS report'')"
    if "\<not> refuses db st (GetTpsReport rid)" and "uid = creator_id report"
      and "\<not> accepts db (put_calls st uid rid report updateData now)"
    using put_resume_db_refused [OF perm [OF that(2)] row that(3)] resume [OF that(1)] by simp
  have accepted: "fst ?answer = (200, ReportBody ?updated)
             \<and> status ?updated = COMPLETED
             \<and> creator_initials ?updated
                 = spread (creator_initials report) (p_creator_initials updateData)
             \<and> getTpsReport (snd ?answer) (id_r ?updated) = Some ?updated
             \<and> (case getUserWithPartner st uid of
                   None \<Rightarrow> outbox (snd ?answer) = outbox st \<and> calendar (snd ?answer) = calendar st
                 | Some (user, partner) \<Rightarrow>
                     outbox (snd ?answer)
                       = outbox st @
                         [\<lparr>to_addr = email partner, subject = ''TPS Report Completed'',
                           body = name_u user @ '' has approved the TPS report. It's time to review TPS reports!''\<rparr>]
                     \<and> calendar (snd ?answer)
                         = calendar st @ [(uid, ?event), (id_u partner, ?event)])"
    if g: "\<not> refuses db st (GetTpsReport rid)" and c: "uid = creator_id report"
      and acc: "accepts db (put_calls st uid rid report updateData now)"
  proof -
    note run = put_resume_db [OF perm [OF c] row acc, folded resume [OF g]]
    have 1: "fst ?answer = (200, ReportBody ?updated)" by (simp add: run)
    have 2: "status ?updated = COMPLETED"
      using assms(4) by (simp add: mergeTpsReport_def spread_def)
    have 3: "creator_initials ?updated
        = spread (creator_initials report) (p_creator_initials updateData)"
      by (simp add: mergeTpsReport_def)
    have 4: "getTpsReport (snd ?answer) (id_r ?updated) = Some ?updated"
      by (simp add: run getTpsReport_def written_reports)
    have 5: "(case getUserWithPartner st uid of
                   None \<Rightarrow> outbox (snd ?answer) = outbox st \<and> calendar (snd ?answer) = calendar st
                 | Some (user, partner) \<Rightarrow>
                     outbox (snd ?answer)
                       = outbox st @
                         [\<lparr>to_addr = email partner, subject = ''TPS Report Completed'',
                           body = name_u user @ '' has approved the TPS report. It's time to review TPS reports!''\<rparr>]
                     \<and> calendar (snd ?answer)
                         = calendar st @ [(uid, ?event), (id_u partner, ?event)])"
      using assms(4) c [symmetric]
      by (simp add: run notify_def Let_def sendEmail_def addToCalendar_def createTpsLog_def
            written_def TpsStatus_distinct split: option.splits prod.splits)
    from 1 2 3 4 5 show ?thesis by blast
  qed
  from thrown other failed accepted show ?thesis
    unfolding Let_def by blast
qed

theorem completion_by_creator_witness:
  "fst (fst (put_tps_report_on (database_storage accepting) (store_with PENDING_APPROVAL)
               (Some 1) (Some 1) (set_status COMPLETED) 20)) = 200
   \<and> refused (store_with PENDING_APPROVAL)
       (put_tps_report_on (database_storage accepting) (store_with PENDING_APPROVAL)
          (Some 2) (Some 1) (set_status COMPLETED) 20)
   \<and> fst (fst (put_tps_report_on (database_storage keyed) (store_with PENDING_APPROVAL)
                 (Some 1) (Some 1) ((set_status COMPLETED)\<lparr>p_id := Some 7\<rparr>) 20)) = 500"
proof -
  have p: "p_status (set_status COMPLETED) = Some COMPLETED"
    "p_status ((set_status COMPLETED)\<lparr>p_id := Some 7\<rparr>) = Some COMPLETED"
    by (simp_all add: set_status_def)
  have k: "\<not> refuses keyed (store_with PENDING_APPROVAL) (GetTpsReport 1)"
    "\<not> accepts keyed (put_calls (store_with PENDING_APPROVAL) 1 1
          (InsertTpsReport.extend (sample PENDING_APPROVAL) (TpsReport.fields 1 10 10))
          ((set_status COMPLETED)\<lparr>p_id := Some 7\<rparr>) 20)"
    by (simp_all add: keyed_def accepts_def put_calls_def Let_def set_status_def no_change_def)
  show ?thesis
    using completion_by_creator [OF sample_report sample_report_fields(3) _ p(1),
        of 1 accepting 20, unfolded Let_def]
      completion_by_creator [OF sample_report sample_report_fields(3) _ p(1),
        of 2 accepting 20, unfolded Let_def]
      completion_by_creator [OF sample_report sample_report_fields(3) _ p(2),
        of 1 keyed 20, unfolded Let_def] k
    by (simp add: sample_report_fields)
qed

section \<open>Claim C7: two requests at once\<close>

text \<open>
  Claim C7 as stated fails, on the class \<open>DatabaseStorage\<close> with a database that accepts
  the calls. Report 1 is pending review, and the receiver sends two updates, one to
  pending approval and one to aborted. When both have read the report before either
  writes, both are answered 200 and the report ends aborted, the status of the later
  write. When the second is handled after the first has finished, it is answered 403,
  not 409.
\<close>

theorem concurrent_updates_counterexample:
  "fst (fst (put_resume_on (database_storage accepting) (store_with PENDING_REVIEW) 2 1
               (getTpsReport (store_with PENDING_REVIEW) 1) (set_status PENDING_APPROVAL) 20)) = 200
   \<and> fst (fst (put_resume_on (database_storage accepting)
                 (snd (put_resume_on (database_storage accepting) (store_with PENDING_REVIEW) 2 1
                         (getTpsReport (store_with PENDING_REVIEW) 1) (set_status PENDING_APPROVAL) 20))
                 2 1 (getTpsReport (store_with PENDING_REVIEW) 1) (set_status ABORTED) 21)) = 200
   \<and> map_option status
        (getTpsReport
           (snd (put_resume_on (database_storage accepting)
                   (snd (put_resume_on (database_storage accepting) (store_with PENDING_REVIEW) 2 1
                           (getTpsReport (store_with PENDING_REVIEW) 1) (set_status PENDING_APPROVAL) 20))
                   2 1 (getTpsReport (store_with PENDING_REVIEW) 1) (set_status ABORTED) 21)) 1)
      = Some ABORTED
   \<and> fst (fst (put_tps_report_on (database_storage accepting)
                 (snd (put_tps_report_on (database_storage accepting) (store_with PENDING_REVIEW)
                         (Some 2) (Some 1) (set_status PENDING_APPROVAL) 20))
                 (Some 2) (Some 1) (set_status ABORTED) 21)) = 403"
  by (simp add: store_defs sample_defs Let_def TpsStatus_defs put_permission_def notify_def
        put_tps_report_on_def put_resume_on_def db_defs accepting_def written_def)

text \<open>
  Claim C7, amended. The update handler has no conflict detection. On any store it never
  answers 409 Conflict: its answers are 200, 400, 401, 403, 404 and 500. On the class
  \<open>DatabaseStorage\<close> its write does not depend on the status it checked. When two
  requests for the same report have both read it, and the checks let both users write,
  then handled one after the other from there each is answered 200 or 500, and neither
  is refused for the other's write. When both are answered 200, the first returns the
  report with its payload merged in, the second returns that row with the second payload
  merged in, this row is stored, and its status is that of the second payload when it
  carries one, else that of the first, else the old one. Both are answered 200 when the
  first payload leaves the id alone and the database accepts the calls of both. When the
  second request is handled after the first has finished with 200 (the id left alone,
  the read accepted), it is checked against the row that the first one wrote: it gets
  the refusal of the checks when there is one, and 200 or 500 otherwise.
\<close>

theorem update_has_no_conflict_detection:
  "fst (fst (put_tps_report_on storage st sess reportId updateData now))
      \<in> {200, 400, 401, 403, 404, 500}
   \<and> fst (fst (put_resume_on storage st uid rid fetched updateData now)) \<in> {200, 403, 404, 500}
   \<and> (tpsReports st rid = Some report \<and> put_permission report ua = None
        \<and> put_permission report ub = None \<longrightarrow>
        (let first = put_resume_on (database_storage db) st ua rid (Some report) a ta;
             second = put_resume_on (database_storage db) (snd first) ub rid (Some report) b tb;
             row1 = mergeTpsReport report a ta;
             row2 = mergeTpsReport row1 b tb
         in fst (fst first) \<in> {200, 500} \<and> fst (fst second) \<in> {200, 500}
          \<and> (fst (fst first) = 200 \<and> fst (fst second) = 200 \<longrightarrow>
                fst first = (200, ReportBody row1) \<and> fst second = (200, ReportBody row2)
              \<and> getTpsReport (snd second) (id_r row2) = Some row2
              \<and> status row2 = spread (spread (status report) (p_status a)) (p_status b))
          \<and> (id_r row1 = rid \<and> accepts db (put_calls st ua rid report a ta)
               \<and> accepts db (put_calls (snd first) ub rid row1 b tb) \<longrightarrow>
                fst (fst first) = 200 \<and> fst (fst second) = 200)))
   \<and> (tpsReports st rid = Some report \<and> ua \<noteq> 0 \<and> ub \<noteq> 0 \<longrightarrow>
        (let first = put_tps_report_on (database_storage db) st (Some ua) (Some rid) a ta;
             second = put_tps_report_on (database_storage db) (snd first) (Some ub) (Some rid) b tb;
             row1 = mergeTpsReport report a ta
         in fst (fst first) = 200 \<and> id_r row1 = rid
              \<and> \<not> refuses db (snd first) (GetTpsReport rid) \<longrightarrow>
            (\<forall>refusal. put_permission row1 ub = Some refusal \<longrightarrow> second = (refusal, snd first))
          \<and> (put_permission row1 ub = None \<longrightarrow> fst (fst second) \<in> {200, 500})))"
proof (intro conjI impI)
  show "fst (fst (put_tps_report_on storage st sess reportId updateData now))
      \<in> {200, 400, 401, 403, 404, 500}"
    by (rule put_tps_report_on_codes)
next
  show "fst (fst (put_resume_on storage st uid rid fetched updateData now)) \<in> {200, 403, 404, 500}"
    by (rule put_resume_on_codes)
next
  assume h: "tpsReports st rid = Some report \<and> put_permission report ua = None
        \<and> put_permission report ub = None"
  then have r: "tpsReports st rid = Some report"
    and pa: "put_permission report ua = None" and pb: "put_permission report ub = None"
    by simp_all
  let ?first = "put_resume_on (database_storage db) st ua rid (Some report) a ta"
  let ?second = "put_resume_on (database_storage db) (snd ?first) ub rid (Some report) b tb"
  let ?row1 = "mergeTpsReport report a ta"
  let ?row2 = "mergeTpsReport ?row1 b tb"
  have c1: "fst (fst ?first) \<in> {200, 500}" by (rule put_resume_db_codes [OF pa])
  have c2: "fst (fst ?second) \<in> {200, 500}" by (rule put_resume_db_codes [OF pb])
  have both: "fst ?first = (200, ReportBody ?row1) \<and> fst ?second = (200, ReportBody ?row2)
              \<and> getTpsReport (snd ?second) (id_r ?row2) = Some ?row2
              \<and> status ?row2 = spread (spread (status report) (p_status a)) (p_status b)"
    if ok: "fst (fst ?first) = 200 \<and> fst (fst ?second) = 200"
  proof -
    from ok have ok1: "fst (fst ?first) = 200" and ok2: "fst (fst ?second) = 200"
      by simp_all
    from put_resume_db_200 [OF pa ok1] r
    have f1: "fst ?first = (200, ReportBody ?row1)"
      and t1: "tpsReports (snd ?first) = tpsReports (written st rid ?row1)"
      by auto
    from put_resume_db_200 [OF pb ok2] obtain row where
      row: "tpsReports (snd ?first) rid = Some row"
      and f2: "fst ?second = (200, ReportBody (mergeTpsReport row b tb))"
      and t2: "tpsReports (snd ?second) = tpsReports (written (snd ?first) rid (mergeTpsReport row b tb))"
      by blast
    from row t1 have "row = ?row1"
      by (simp add: written_reports split: if_splits)
    with f2 t2 have f2': "fst ?second = (200, ReportBody ?row2)"
      and "getTpsReport (snd ?second) (id_r ?row2) = Some ?row2"
      by (simp_all add: getTpsReport_def written_reports)
    moreover have "status ?row2 = spread (spread (status report) (p_status a)) (p_status b)"
      by (simp add: mergeTpsReport_def)
    ultimately show ?thesis using f1 by blast
  qed
  have accepted: "fst (fst ?first) = 200 \<and> fst (fst ?second) = 200"
    if acc: "id_r ?row1 = rid \<and> accepts db (put_calls st ua rid report a ta)
               \<and> accepts db (put_calls (snd ?first) ub rid ?row1 b tb)"
  proof -
    from acc have a1: "accepts db (put_calls st ua rid report a ta)" by simp
    note run1 = put_resume_db [OF pa r a1]
    have row: "tpsReports (snd ?first) rid = Some ?row1"
      using acc by (simp add: run1 written_reports createTpsLog_def Let_def)
    from acc have a2: "accepts db (put_calls (snd ?first) ub rid ?row1 b tb)" by simp
    note run2 = put_resume_db [OF pb row a2]
    have "fst (fst ?first) = 200" by (simp add: run1)
    moreover have "fst (fst ?second) = 200" by (simp only: run2 fst_conv)
    ultimately show ?thesis by blast
  qed
  from c1 c2 both accepted
  show "let first = put_resume_on (database_storage db) st ua rid (Some report) a ta;
             second = put_resume_on (database_storage db) (snd first) ub rid (Some report) b tb;
             row1 = mergeTpsReport report a ta;
             row2 = mergeTpsReport row1 b tb
         in fst (fst first) \<in> {200, 500} \<and> fst (fst second) \<in> {200, 500}
          \<and> (fst (fst first) = 200 \<and> fst (fst second) = 200 \<longrightarrow>
                fst first = (200, ReportBody row1) \<and> fst second = (200, ReportBody row2)
              \<and> getTpsReport (snd second) (id_r row2) = Some row2
              \<and> status row2 = spread (spread (status report) (p_status a)) (p_status b))
          \<and> (id_r row1 = rid \<and> accepts db (put_calls st ua rid report a ta)
               \<and> accepts db (put_calls (snd first) ub rid row1 b tb) \<longrightarrow>
                fst (fst first) = 200 \<and> fst (fst second) = 200)"
    unfolding Let_def by blast
next
  assume h: "tpsReports st rid = Some report \<and> ua \<noteq> 0 \<and> ub \<noteq> 0"
  then have r: "tpsReports st rid = Some report" and na: "ua \<noteq> 0" and nb: "ub \<noteq> 0"
    by simp_all
  let ?first = "put_tps_report_on (database_storage db) st (Some ua) (Some rid) a ta"
  let ?second = "put_tps_report_on (database_storage db) (snd ?first) (Some ub) (Some rid) b tb"
  let ?row1 = "mergeTpsReport report a ta"
  have later: "(\<forall>refusal. put_permission ?row1 ub = Some refusal \<longrightarrow> ?second = (refusal, snd ?first))
          \<and> (put_permission ?row1 ub = None \<longrightarrow> fst (fst ?second) \<in> {200, 500})"
    if ok: "fst (fst ?first) = 200 \<and> id_r ?row1 = rid
              \<and> \<not> refuses db (snd ?first) (GetTpsReport rid)"
  proof -
    from put_tps_report_db_200 [OF r na] ok
    have row: "tpsReports (snd ?first) rid = Some ?row1"
      by (simp add: written_reports)
    from ok have g: "\<not> refuses db (snd ?first) (GetTpsReport rid)" by simp
    have run: "?second = put_resume_on (database_storage db) (snd ?first) ub rid (Some ?row1) b tb"
      using put_tps_report_db [OF nb g] row by simp
    have "?second = (refusal, snd ?first)" if "put_permission ?row1 ub = Some refusal" for refusal
      using that by (simp add: run put_resume_on_def)
    moreover have "fst (fst ?second) \<in> {200, 500}" if "put_permission ?row1 ub = None"
      unfolding run by (rule put_resume_db_codes [OF that])
    ultimately show ?thesis by blast
  qed
  then show "let first = put_tps_report_on (database_storage db) st (Some ua) (Some rid) a ta;
             second = put_tps_report_on (database_storage db) (snd first) (Some ub) (Some rid) b tb;
             row1 = mergeTpsReport report a ta
         in fst (fst first) = 200 \<and> id_r row1 = rid
              \<and> \<not> refuses db (snd first) (GetTpsReport rid) \<longrightarrow>
            (\<forall>refusal. put_permission row1 ub = Some refusal \<longrightarrow> second = (refusal, snd first))
          \<and> (put_permission row1 ub = None \<longrightarrow> fst (fst second) \<in> {200, 500})"
    unfolding Let_def by blast
qed

theorem update_has_no_conflict_detection_witness:
  "fst (fst (put_resume_on (database_storage accepting) (store_with PENDING_REVIEW) 2 1
               (Some (InsertTpsReport.extend (sample PENDING_REVIEW) (TpsReport.fields 1 10 10)))
               (set_status PENDING_APPROVAL) 20)) = 200
   \<and> fst (fst (put_resume_on (database_storage accepting)
                 (snd (put_resume_on (database_storage accepting) (store_with PENDING_REVIEW) 2 1
                         (Some (InsertTpsReport.extend (sample PENDING_REVIEW) (TpsReport.fields 1 10 10)))
                         (set_status PENDING_APPROVAL) 20))
                 2 1 (Some (InsertTpsReport.extend (sample PENDING_REVIEW) (TpsReport.fields 1 10 10)))
                 (set_status ABORTED) 21)) = 200
   \<and> put_tps_report_on (database_storage accepting)
        (snd (put_tps_report_on (database_storage accepting) (store_with PENDING_REVIEW)
                (Some 2) (Some 1) (set_status PENDING_APPROVAL) 20))
        (Some 2) (Some 1) (set_status ABORTED) 21
      = ((403, Message ''Only the creator can approve this report''),
         snd (put_tps_report_on (database_storage accepting) (store_with PENDING_REVIEW)
                (Some 2) (Some 1) (set_status PENDING_APPROVAL) 20))"
proof -
  let ?report = "InsertTpsReport.extend (sample PENDING_REVIEW) (TpsReport.fields 1 10 10)"
  let ?row1 = "mergeTpsReport ?report (set_status PENDING_APPROVAL) 20"
  have r: "tpsReports (store_with PENDING_REVIEW) 1 = Some ?report"
    using sample_report [of PENDING_REVIEW] by (simp add: getTpsReport_def)
  have allowed: "put_permission ?report 2 = None"
    by (simp add: put_permission_def Let_def sample_report_fields TpsStatus_distinct)
  have key: "id_r ?row1 = 1"
    by (simp add: mergeTpsReport_def spread_def set_status_def no_change_def
          InsertTpsReport.defs TpsReport.defs)
  have first: "fst (fst (put_tps_report_on (database_storage accepting) (store_with PENDING_REVIEW)
                (Some 2) (Some 1) (set_status PENDING_APPROVAL) 20)) = 200"
    using put_resume_db [OF allowed r accepting_accepts]
    by (simp add: put_tps_report_db r)
  have late: "put_permission ?row1 2 = Some (403, Message ''Only the creator can approve this report'')"
    by (simp add: put_permission_def Let_def mergeTpsReport_def spread_def set_status_def
          no_change_def sample_report_fields TpsStatus_distinct)
  note inst = update_has_no_conflict_detection [where st = "store_with PENDING_REVIEW" and rid = 1
        and report = ?report and ua = 2 and ub = 2 and a = "set_status PENDING_APPROVAL"
        and ta = 20 and b = "set_status ABORTED" and tb = 21 and db = accepting, unfolded Let_def]
  from inst r allowed key
  have "fst (fst (put_resume_on (database_storage accepting) (store_with PENDING_REVIEW) 2 1
               (Some ?report) (set_status PENDING_APPROVAL) 20)) = 200
   \<and> fst (fst (put_resume_on (database_storage accepting)
                 (snd (put_resume_on (database_storage accepting) (store_with PENDING_REVIEW) 2 1
                         (Some ?report) (set_status PENDING_APPROVAL) 20))
                 2 1 (Some ?report) (set_status ABORTED) 21)) = 200"
    using accepting_accepts by blast
  moreover have "put_tps_report_on (database_storage accepting)
        (snd (put_tps_report_on (database_storage accepting) (store_with PENDING_REVIEW)
                (Some 2) (Some 1) (set_status PENDING_APPROVAL) 20))
        (Some 2) (Some 1) (set_status ABORTED) 21
      = ((403, Message ''Only the creator can approve this report''),
         snd (put_tps_report_on (database_storage accepting) (store_with PENDING_REVIEW)
                (Some 2) (Some 1) (set_status PENDING_APPROVAL) 20))"
  proof -
    let ?first = "put_tps_report_on (database_storage accepting) (store_with PENDING_REVIEW)
                (Some 2) (Some 1) (set_status PENDING_APPROVAL) 20"
    have nz: "(2::int) \<noteq> 0" by simp
    from inst [THEN conjunct2, THEN conjunct2, THEN conjunct2] r nz
    have "fst (fst ?first) = 200 \<and> id_r ?row1 = 1
              \<and> \<not> refuses accepting (snd ?first) (GetTpsReport 1) \<longrightarrow>
            (\<forall>refusal. put_permission ?row1 2 = Some refusal \<longrightarrow>
               put_tps_report_on (database_storage accepting) (snd ?first) (Some 2) (Some 1)
                 (set_status ABORTED) 21 = (refusal, snd ?first))
          \<and> (put_permission ?row1 2 = None \<longrightarrow>
               fst (fst (put_tps_report_on (database_storage accepting) (snd ?first) (Some 2) (Some 1)
                 (set_status ABORTED) 21)) \<in> {200, 500})"
      by blast
    with first key late accepting_refuses show ?thesis
      by blast
  qed
  ultimately show ?thesis by blast
qed

section \<open>Claim C8: the order of the extracted fields\<close>

text \<open>
  Claim C8. The list \<open>extractFormFields\<close> returns for a document is a function of the
  document alone: the fields of the widget annotations of page 1 in the order of that
  page, then those of page 2, and so on to the last page, each field with the number of
  its page. \<open>loadPdfForm\<close> stores that list whatever the module held before, so loading
  the same bytes a second time stores a list equal to the first, element by element.
  (That pdf.js parses equal bytes to equal documents is what the parser being a function
  says; it is not a fact about this repository.)
\<close>

theorem extractor_page_order:
  "extractFormFields pdfDoc = fields_in_page_order pdfDoc
   \<and> map pageNumber (page_fields pdfDoc i) = replicate (length (page_fields pdfDoc i)) (Some i)
   \<and> (case getDocument pdfBytes of
         None \<Rightarrow> True
       | Some parsed \<Rightarrow>
           currentPdfFields (snd (loadPdfForm getDocument m pdfBytes)) = fields_in_page_order parsed
           \<and> currentPdfFields
                (snd (loadPdfForm getDocument (snd (loadPdfForm getDocument m pdfBytes)) pdfBytes))
               = currentPdfFields (snd (loadPdfForm getDocument m pdfBytes)))"
proof -
  have "map pageNumber (map (field_of i) xs) = replicate (length xs) (Some i)" for xs
    by (induction xs) (simp_all add: field_of_def)
  then show ?thesis
    by (simp add: extractFormFields_def fields_in_page_order_def extract_from_eq loadPdfForm_def
          Let_def page_fields_def split: option.splits)
qed

theorem extractor_page_order_witness:
  "map name_f (extractFormFields sample_doc) = [''a'', ''b'', ''c'']
   \<and> map pageNumber (extractFormFields sample_doc) = [Some 1, Some 1, Some 2]"
proof -
  have "extractFormFields sample_doc = fields_in_page_order sample_doc"
    using extractor_page_order [of sample_doc] by blast
  then show ?thesis
    by (simp add: sample_doc_fields field_of_def widget_def str_default_def str_or_def)
qed

section \<open>Claim C9: the geometry of the overlay\<close>

text \<open>
  Claim C9 as stated fails. A field across the 595 points that the code takes for the
  width of the page, between the heights 100 and 120 (\<open>rect = [0, 100, 595, 120]\<close>, the
  lower left corner first, as pdf.js gives it). On a canvas 800 wide, the width of the
  container is \<open>595 * (800 / 595)\<close> in doubles, which is not 800. On a canvas of 1190 by
  1684, where the factor is 2 and no operation rounds, the field covers the rows 1444 to
  1484 of the raster; the container gets the top 1524 and no height: the height computed,
  \<open>(rect.top - rect.bottom) * scale\<close> with \<open>rect.top = rect[1]\<close>, is -40.
\<close>

theorem overlay_scale_counterexample:
  "style_width (field_box 800 1132 full_width) = Some (800 + 1 / 2 ^ 43)
   \<and> field_box 1190 1684 full_width
       = \<lparr>style_left = 0, style_top = 1524, style_width = Some 1190, style_height = None\<rparr>"
  by (simp add: field_box_def full_width_def px_length_def Let_def scale_800 width_800)

text \<open>
  The height is lost for every rectangle as pdf.js hands it over, the lower edge first
  (\<open>rect[1] < rect[3]\<close>): the height computed is negative, and the container gets none.
\<close>

lemma overlay_height_dropped:
  assumes "rect_top r < rect_bottom r" and "0 < w" and "w < 2 ^ 32"
    and "moderate (rect_top r - rect_bottom r)"
  shows "style_height (field_box w h r) = None"
proof -
  have "0 < fl64 (real w / 595)"
    using assms(2) by (intro fl64_pos) simp
  moreover have "fl64 (rect_top r - rect_bottom r) < 0"
    using assms(1) by (intro fl64_neg) simp
  ultimately have "fl64 (rect_top r - rect_bottom r) * fl64 (real w / 595) < 0"
    by (rule mult_neg_pos [rotated])
  then have "fl64 (fl64 (rect_top r - rect_bottom r) * fl64 (real w / 595)) < 0"
    by (rule fl64_neg)
  then show ?thesis
    by (simp add: field_box_def Let_def px_length_def)
qed

text \<open>
  Claim C9, amended to the horizontal axis. Every field of page 1 that has a rectangle
  gets a container. On a canvas less than \<open>2^32\<close> wide, for a rectangle of doubles of
  moderate size, the left edge of the container is \<open>rect.left\<close> times
  \<open>canvas width / 595\<close> up to a relative error of \<open>3 / 2^53\<close>, and, when \<open>rect.left\<close> is
  not beyond \<open>rect.right\<close>, the container has a width, which is \<open>rect.right - rect.left\<close>
  times the same factor up to a relative error of \<open>4 / 2^53\<close>. A field whose rectangle is
  595 wide gets the width of the canvas up to a relative error of \<open>3 / 2^53\<close>, and
  exactly that width when the width of the canvas is a multiple of 595.
\<close>

theorem overlay_horizontal_scale:
  assumes "field \<in> set fs" and "pageNumber field = Some 1" and "rect field = Some r"
    and "w < 2 ^ 32"
    and "moderate (rect_left r)" and "moderate (rect_right r - rect_left r)"
  shows "(name_f field, field_box w h r) \<in> set (overlay_boxes w h fs)
       \<and> \<bar>style_left (field_box w h r) - rect_left r * (real w / 595)\<bar>
           \<le> 3 * \<bar>rect_left r * (real w / 595)\<bar> / 2 ^ 53
       \<and> (rect_left r \<le> rect_right r \<longrightarrow>
            (\<exists>v. style_width (field_box w h r) = Some v
               \<and> \<bar>v - (rect_right r - rect_left r) * (real w / 595)\<bar>
                   \<le> 4 * \<bar>(rect_right r - rect_left r) * (real w / 595)\<bar> / 2 ^ 53))
       \<and> (rect_right r - rect_left r = 595 \<longrightarrow>
            (\<exists>v. style_width (field_box w h r) = Some v
               \<and> \<bar>v - real w\<bar> \<le> 3 * real w / 2 ^ 53
               \<and> (595 dvd w \<longrightarrow> v = real w)))"
proof (intro conjI impI)
  have "set (overlay_boxes w h fs)
      = {(name_f field, field_box w h r) | field r.
           field \<in> set fs \<and> pageNumber field = Some 1 \<and> rect field = Some r}"
    by (induction fs) (auto split: option.splits)
  with assms(1-3) show "(name_f field, field_box w h r) \<in> set (overlay_boxes w h fs)"
    by blast
next
  show "\<bar>style_left (field_box w h r) - rect_left r * (real w / 595)\<bar>
      \<le> 3 * \<bar>rect_left r * (real w / 595)\<bar> / 2 ^ 53"
    using left_error [of "rect_left r" "real w / 595"] by (simp add: field_box_def Let_def)
next
  assume "rect_left r \<le> rect_right r"
  then have "0 \<le> fl64 (rect_right r - rect_left r) * fl64 (real w / 595)"
    by (intro mult_nonneg_nonneg fl64_nonneg) simp_all
  then have "0 \<le> fl64 (fl64 (rect_right r - rect_left r) * fl64 (real w / 595))"
    by (rule fl64_nonneg)
  then have "style_width (field_box w h r)
      = Some (fl64 (fl64 (rect_right r - rect_left r) * fl64 (real w / 595)))"
    by (simp add: field_box_def Let_def px_length_def)
  with width_error [of "rect_right r - rect_left r" "real w / 595"]
  show "\<exists>v. style_width (field_box w h r) = Some v
      \<and> \<bar>v - (rect_right r - rect_left r) * (real w / 595)\<bar>
          \<le> 4 * \<bar>(rect_right r - rect_left r) * (real w / 595)\<bar> / 2 ^ 53"
    by blast
next
  assume wide: "rect_right r - rect_left r = 595"
  let ?v = "fl64 (595 * fl64 (real w / 595))"
  have "0 \<le> 595 * fl64 (real w / 595)"
    by (intro mult_nonneg_nonneg fl64_nonneg) simp_all
  then have "0 \<le> ?v" by (rule fl64_nonneg)
  then have v: "style_width (field_box w h r) = Some ?v"
    using wide by (simp add: field_box_def Let_def px_length_def)
  have "\<bar>?v - 595 * (real w / 595)\<bar> \<le> 3 * \<bar>595 * (real w / 595)\<bar> / 2 ^ 53"
    by (rule left_error)
  then have close: "\<bar>?v - real w\<bar> \<le> 3 * real w / 2 ^ 53" by simp
  have exact: "?v = real w" if "595 dvd w"
  proof -
    from that obtain m where m: "w = 595 * m" by (elim dvdE)
    have "m \<le> w" using m by simp
    with assms(4) have "int m < 2 ^ 32" by simp
    then have small: "\<bar>int m\<bar> < 2 ^ 53" and small': "\<bar>int w\<bar> < 2 ^ 53"
      using assms(4) by simp_all
    have "real w / 595 = of_int (int m)" using m by simp
    then have "fl64 (real w / 595) = of_int (int m)"
      using fl64_int [OF small] by simp
    then have "595 * fl64 (real w / 595) = of_int (int w)" using m by simp
    then show ?thesis using fl64_int [OF small'] by simp
  qed
  from v close exact show "\<exists>v. style_width (field_box w h r) = Some v
      \<and> \<bar>v - real w\<bar> \<le> 3 * real w / 2 ^ 53 \<and> (595 dvd w \<longrightarrow> v = real w)"
    by blast
qed

theorem overlay_horizontal_scale_witness:
  "(''a'', field_box 1190 1684 full_width)
       \<in> set (overlay_boxes 1190 1684 [field_of 1 (widget ''Widget'' ''a'')])
   \<and> style_left (field_box 1190 1684 full_width) = 0
   \<and> style_width (field_box 1190 1684 full_width) = Some 1190"
proof -
  let ?a = "field_of 1 (widget ''Widget'' ''a'')"
  have a: "?a \<in> set [?a]" "pageNumber ?a = Some 1" "rect ?a = Some full_width"
    and nm: "name_f ?a = ''a''"
    by (simp_all add: field_of_def widget_def full_width_def str_default_def str_or_def)
  have m: "moderate (rect_left full_width)" "moderate (rect_right full_width - rect_left full_width)"
    by (simp_all add: moderate_def full_width_def)
  have w: "(1190::nat) < 2 ^ 32" by simp
  from overlay_horizontal_scale [OF a w m, of 1684]
  have box: "(name_f ?a, field_box 1190 1684 full_width) \<in> set (overlay_boxes 1190 1684 [?a])"
    and left: "\<bar>style_left (field_box 1190 1684 full_width) - rect_left full_width * (real 1190 / 595)\<bar>
        \<le> 3 * \<bar>rect_left full_width * (real 1190 / 595)\<bar> / 2 ^ 53"
    and wide: "rect_right full_width - rect_left full_width = 595 \<longrightarrow>
        (\<exists>v. style_width (field_box 1190 1684 full_width) = Some v
           \<and> \<bar>v - real 1190\<bar> \<le> 3 * real 1190 / 2 ^ 53
           \<and> (595 dvd (1190::nat) \<longrightarrow> v = real 1190))"
    by blast+
  have "rect_right full_width - rect_left full_width = 595"
    by (simp add: full_width_def)
  with wide obtain v where "style_width (field_box 1190 1684 full_width) = Some v"
    and "595 dvd (1190::nat) \<longrightarrow> v = real 1190"
    by blast
  then have width: "style_width (field_box 1190 1684 full_width) = Some 1190"
    by simp
  from left have left0: "style_left (field_box 1190 1684 full_width) = 0"
    by (simp add: full_width_def)
  from box have "(''a'', field_box 1190 1684 full_width) \<in> set (overlay_boxes 1190 1684 [?a])"
    by (simp only: nm)
  with left0 width show ?thesis
    by blast
qed

section \<open>Claim C10: the parties and the log of a replication\<close>



end
